theory Spec2Isabelle
  imports Complex_Main
begin

section \<open>The A-Frame animation component (src/components/animation/index.js)\<close>

text \<open>
  The component is a thin state machine between three services of its host: the
  entity \<open>el\<close> (an event target that also stores property values), the tween
  engine \<open>anime\<close> and the timer queue (\<open>setTimeout\<close>). The embedding keeps
  the members of the component object and the part of the host that the component
  reads or writes in one record, and every method becomes a function on that record.

  Numbers are JavaScript numbers; they are modelled as reals, with \<open>NaN\<close> added
  where the code itself can produce or test for it (\<open>data.delay\<close> in a condition,
  \<open>degToRad\<close> of a missing coordinate).
\<close>

subsection \<open>Values\<close>

datatype num = Num real | NaN

text \<open>Truthiness of a number in a condition: \<open>0\<close> and \<open>NaN\<close> are falsy.\<close>

fun truthy :: "num \<Rightarrow> bool" where
  "truthy (Num r) = (r \<noteq> 0)"
| "truthy NaN = False"

text \<open>
  An object with numeric coordinates, \<open>{x, y, z[, w]}\<close>, as the coordinate parser
  and the entity produce it: a map from its keys to numbers. A key that is absent reads
  as \<open>undefined\<close>.
\<close>

datatype axis = X | Y | Z | W

type_synonym vec = "axis \<rightharpoonup> num"

fun axis_key :: "axis \<Rightarrow> string" where
  "axis_key X = ''x''"
| "axis_key Y = ''y''"
| "axis_key Z = ''z''"
| "axis_key W = ''w''"

text \<open>A value read from the entity or stored in the configuration. \<open>Undefined\<close>
  stands for \<open>undefined\<close> and \<open>null\<close>, which the source never tells apart.\<close>

datatype val = Undefined | Bool bool | Str string | Number num | Vector vec

text \<open>
  The four bound methods that are handed to \<open>addEventListener\<close>,
  \<open>removeEventListener\<close> and \<open>setTimeout\<close>. \<open>init\<close> binds each of them
  once, so one constructor is one function reference.
\<close>

datatype handler = BeginAnimation | PauseAnimation | ResumeAnimation | RestartAnimation

text \<open>The callbacks stored in the configuration, named after where the source creates them.\<close>

datatype callback = CompleteCallback | UpdateDefault | UpdateObject3D | UpdateVector

text \<open>
  A value of a key of \<open>this.config\<close>: a plain value, the target container of the
  default path (\<open>{aframeProperty: from}\<close>), the target list of the vector path
  (\<open>[from]\<close>), or a callback.
\<close>

datatype cval = Val val | KeyedTarget val | ListTarget val | Callback callback

type_synonym config = "string \<rightharpoonup> cval"

subsection \<open>The schema data and the component\<close>

text \<open>
  \<open>this.data\<close>, one field for each property of the schema (\<open>from\<close> and
  \<open>to\<close> carry a prime, the plain words being reserved). \<open>loop\<close> is a boolean
  or a number, as the \<open>parse\<close> function of the schema returns it; the four event
  lists are arrays of names.
\<close>

record data =
  delay :: num
  dir :: string
  dur :: num
  easing :: string
  elasticity :: num
  from' :: string
  loop :: val
  property :: string
  startEvents :: "string list"
  pauseEvents :: "string list"
  resumeEvents :: "string list"
  restartEvents :: "string list"
  to' :: string

text \<open>
  The handle returned by \<open>anime(config)\<close>: the configuration it was built from and
  the times the component has fed to \<open>animation.tick\<close> so far. What the engine does
  with them (interpolation, calling the callbacks) is the engine's.
\<close>

record handle =
  built_from :: config
  fed :: "real list"

text \<open>
  The component instance and the part of its host it touches.
  \<^item> \<open>paused\<close> and \<open>pausedWasPlaying\<close> are never assigned by \<open>init\<close>; they
    start as \<open>undefined\<close>, which every test in the source treats as false.
  \<^item> \<open>listeners\<close> is the event listener list of \<open>el\<close>, restricted to the four
    handlers of this component. Each registration carries a number of its own, so that
    a listener removed and added again is a new registration.
  \<^item> \<open>emitted\<close> is the sequence of notifications passed to \<open>el.emit\<close>, each with
    the \<open>name\<close> of its detail. The notifications are the output of the component;
    what the host does with them is not part of the model. In particular the trigger
    lists are taken not to name the component's own two notifications, which the host
    would deliver back to the component's handlers.
  \<^item> \<open>timers\<close> are the due times of the pending \<open>setTimeout\<close> calls; the callback
    of every one of them is \<open>this.beginAnimation\<close>, the only function the source
    ever schedules.
  \<^item> \<open>entity\<close> is what the host's \<open>getComponentProperty(el, path)\<close> does at
    this moment: it returns a value, or it throws. It reads \<open>el.getAttribute\<close> and,
    for a dotted path, a property of the result, so it throws a \<open>TypeError\<close> for a
    dotted path whose component is not on the entity; for a plain name that is not on
    the entity it returns \<open>null\<close>.
\<close>

datatype error = TypeError


record world =
  attrName :: string
  eventDetail :: string
  time :: real
  animation :: "handle option"
  animationIsPlaying :: bool
  paused :: bool
  pausedWasPlaying :: bool
  config :: config
  data :: data
  listeners :: "(nat \<times> string \<times> handler) list"
  nextId :: nat
  emitted :: "(string \<times> string) list"
  timers :: "real list"
  clock :: real
  entity :: "string \<Rightarrow> error + val"

text \<open>
  The host services that do not change while the component runs: the coordinate
  parser \<open>AFRAME.utils.coordinates.parse\<close>, and the schemas of the components on
  the entity (\<open>el.components\<close>) and of the registered ones (\<open>AFRAME.components\<close>).
  A schema is either the schema of a single-property component, which has a
  \<open>type\<close>, or maps property names to the types of their property schemas.

  Both registries are plain objects, so \<open>components[name]\<close> also finds the members
  that every object inherits from \<open>Object.prototype\<close>. Each of these is truthy and
  has no \<open>schema\<close>.
\<close>

datatype schema = SingleProp string | MultiProp "string \<rightharpoonup> string"

definition object_prototype :: "string list" where
  "object_prototype =
     [''constructor'', ''hasOwnProperty'', ''isPrototypeOf'', ''propertyIsEnumerable'',
      ''toLocaleString'', ''toString'', ''valueOf'', ''__proto__'', ''__defineGetter__'',
      ''__defineSetter__'', ''__lookupGetter__'', ''__lookupSetter__'']"

datatype member = Component schema | Inherited

text \<open>\<open>components[name]\<close>; \<open>None\<close> is \<open>undefined\<close>.\<close>

definition lookup_member :: "(string \<rightharpoonup> schema) \<Rightarrow> string \<Rightarrow> member option" where
  "lookup_member components name =
     (case components name of
        Some sch \<Rightarrow> Some (Component sch)
      | None \<Rightarrow> if name \<in> set object_prototype then Some Inherited else None)"

record host =
  coordinates_parse :: "string \<Rightarrow> vec"
  elComponents :: "string \<rightharpoonup> schema"
  aframeComponents :: "string \<rightharpoonup> schema"

text \<open>
  A method either returns or throws; in both cases the assignments it made before
  stay in the component, so both outcomes carry the state.
\<close>

datatype outcome = Done world | Threw error world

fun state_of :: "outcome \<Rightarrow> world" where
  "state_of (Done w) = w"
| "state_of (Threw e w) = w"

fun threw :: "outcome \<Rightarrow> bool" where
  "threw (Done w) = False"
| "threw (Threw e w) = True"

subsection \<open>The event target and the timer queue\<close>

text \<open>
  \<open>el.addEventListener(name, handler)\<close> of the DOM: a listener with the same type
  and callback that is already in the list is not added again.
\<close>

definition el_addEventListener :: "string \<Rightarrow> handler \<Rightarrow> world \<Rightarrow> world" where
  "el_addEventListener name h w =
     (if (name, h) \<in> snd ` set (listeners w) then w
      else w\<lparr>listeners := listeners w @ [(nextId w, name, h)], nextId := Suc (nextId w)\<rparr>)"

definition el_removeEventListener :: "string \<Rightarrow> handler \<Rightarrow> world \<Rightarrow> world" where
  "el_removeEventListener name h w =
     w\<lparr>listeners := filter (\<lambda>l. snd l \<noteq> (name, h)) (listeners w)\<rparr>"

text \<open>\<open>el.emit(name, detail)\<close>.\<close>

definition emit :: "string \<Rightarrow> string \<Rightarrow> world \<Rightarrow> world" where
  "emit name detail w = w\<lparr>emitted := emitted w @ [(name, detail)]\<rparr>"

text \<open>
  \<open>setTimeout(this.beginAnimation, delay)\<close>: single-shot, due \<open>delay\<close>
  milliseconds from now; a delay that is not a number counts as 0.
\<close>

fun setTimeout :: "num \<Rightarrow> world \<Rightarrow> world" where
  "setTimeout (Num d) w = w\<lparr>timers := timers w @ [clock w + d]\<rparr>"
| "setTimeout NaN w = w\<lparr>timers := timers w @ [clock w]\<rparr>"

subsection \<open>The module-level functions\<close>

text \<open>\<open>property.split('.')\<close>.\<close>

fun split_str :: "char \<Rightarrow> string \<Rightarrow> string list" where
  "split_str c [] = [[]]"
| "split_str c (x # xs) =
     (if x = c then [] # split_str c xs
      else (case split_str c xs of
              [] \<Rightarrow> [[x]]
            | y # ys \<Rightarrow> (x # y) # ys))"

text \<open>
  \<open>getPropertyType\<close>. \<open>split[0]\<close> is the component name and \<open>split[1]\<close>,
  when there is one, the property name (\<open>split_str\<close> never returns the empty list,
  so the first case is never taken). What is found under the component name may be an
  inherited member; it passes the test \<open>!component\<close>, and reading
  \<open>component.schema[propertyName]\<close> or \<open>component.schema.type\<close> then throws, its
  \<open>schema\<close> being \<open>undefined\<close>. The result \<open>None\<close> stands for
  \<open>null\<close> and for every result that is not a type name: \<open>schema[propertyName]\<close>
  or \<open>schema.type\<close> looked up in a schema of the other shape (an inherited member
  of the schema object included). The caller only compares the result with the three
  vector type names.
\<close>

definition getPropertyType :: "host \<Rightarrow> string \<Rightarrow> error + string option" where
  "getPropertyType h prop =
     (case split_str CHR ''.'' prop of
        [] \<Rightarrow> Inr None
      | componentName # rest \<Rightarrow>
          (let propertyName = (case rest of [] \<Rightarrow> None | p # _ \<Rightarrow> Some p);
               component = (case lookup_member (elComponents h) componentName of
                              Some c \<Rightarrow> Some c
                            | None \<Rightarrow> lookup_member (aframeComponents h) componentName)
           in case component of
                None \<Rightarrow> Inr None
              | Some Inherited \<Rightarrow> Inl TypeError
              | Some (Component sch) \<Rightarrow>
                  (case propertyName of
                     Some p \<Rightarrow>
                       (if p \<noteq> []
                        then (case sch of MultiProp m \<Rightarrow> Inr (m p) | SingleProp t \<Rightarrow> Inr None)
                        else (case sch of SingleProp t \<Rightarrow> Inr (Some t) | MultiProp m \<Rightarrow> Inr None))
                   | None \<Rightarrow>
                       (case sch of SingleProp t \<Rightarrow> Inr (Some t) | MultiProp m \<Rightarrow> Inr None))))"

text \<open>
  \<open>THREE.Math.degToRad\<close> of the three.js library multiplies by \<open>\<pi> / 180\<close>.
  Applied to a key the object does not have (\<open>undefined\<close>) or to \<open>NaN\<close>,
  the product is \<open>NaN\<close>.
\<close>

fun degToRad :: "num option \<Rightarrow> num" where
  "degToRad (Some (Num d)) = Num (d * pi / 180)"
| "degToRad (Some NaN) = NaN"
| "degToRad None = NaN"

text \<open>
  \<open>toRadians(obj)\<close> assigns \<open>obj.x\<close>, \<open>obj.y\<close>, \<open>obj.z\<close>. On
  \<open>undefined\<close> the first assignment throws; on a primitive value the assignments
  have no effect (the file is not in strict mode).
\<close>

definition toRadians_vec :: "vec \<Rightarrow> vec" where
  "toRadians_vec obj =
     (let obj1 = obj(X \<mapsto> degToRad (obj X));
          obj2 = obj1(Y \<mapsto> degToRad (obj1 Y));
          obj3 = obj2(Z \<mapsto> degToRad (obj2 Z))
      in obj3)"

fun toRadians :: "val \<Rightarrow> error + val" where
  "toRadians (Vector obj) = Inr (Vector (toRadians_vec obj))"
| "toRadians Undefined = Inl TypeError"
| "toRadians v = Inr v"

fun addEventListeners' :: "string list \<Rightarrow> handler \<Rightarrow> world \<Rightarrow> world" where
  "addEventListeners' [] h w = w"
| "addEventListeners' (name # eventNames) h w =
     addEventListeners' eventNames h (el_addEventListener name h w)"

fun removeEventListeners' :: "string list \<Rightarrow> handler \<Rightarrow> world \<Rightarrow> world" where
  "removeEventListeners' [] h w = w"
| "removeEventListeners' (name # eventNames) h w =
     removeEventListeners' eventNames h (el_removeEventListener name h w)"

subsection \<open>The methods of the component\<close>

definition init :: "world \<Rightarrow> world" where
  "init w = w\<lparr>eventDetail := attrName w, time := 0, animation := None,
              animationIsPlaying := False,
              config := [''complete'' \<mapsto> Callback CompleteCallback]\<rparr>"

definition pauseAnimation :: "world \<Rightarrow> world" where
  "pauseAnimation w = w\<lparr>animationIsPlaying := False\<rparr>"

definition beginAnimation :: "world \<Rightarrow> world" where
  "beginAnimation w = emit ''animationbegin'' (eventDetail w) (w\<lparr>animationIsPlaying := True\<rparr>)"

definition resumeAnimation :: "world \<Rightarrow> world" where
  "resumeAnimation w = w\<lparr>animationIsPlaying := True\<rparr>"

definition addEventListeners :: "world \<Rightarrow> world" where
  "addEventListeners w =
     (let w1 = addEventListeners' (startEvents (data w)) BeginAnimation w;
          w2 = addEventListeners' (pauseEvents (data w)) PauseAnimation w1;
          w3 = addEventListeners' (resumeEvents (data w)) ResumeAnimation w2
      in addEventListeners' (restartEvents (data w)) RestartAnimation w3)"

definition removeEventListeners :: "world \<Rightarrow> world" where
  "removeEventListeners w =
     (let w1 = removeEventListeners' (startEvents (data w)) BeginAnimation w;
          w2 = removeEventListeners' (pauseEvents (data w)) PauseAnimation w1;
          w3 = removeEventListeners' (resumeEvents (data w)) ResumeAnimation w2
      in removeEventListeners' (restartEvents (data w)) RestartAnimation w3)"

text \<open>
  In both builders \<open>getComponentProperty\<close> is called only when \<open>data.from\<close> is
  empty, and before anything is written; when it throws, the builder is left at once.
\<close>

definition updateConfigForDefault :: "world \<Rightarrow> outcome" where
  "updateConfigForDefault w =
     (let d = data w;
          from = (if from' d \<noteq> [] then Inr (Str (from' d)) else entity w (property d))
      in case from of
           Inl e \<Rightarrow> Threw e w
         | Inr f \<Rightarrow>
             Done (w\<lparr>config := (config w)(''targets'' \<mapsto> KeyedTarget f,
                                           ''aframeProperty'' \<mapsto> Val (Str (to' d)),
                                           ''update'' \<mapsto> Callback UpdateDefault)\<rparr>))"

text \<open>\<open>for (key in to) { config[key] = to[key]; }\<close>\<close>

definition copy_keys :: "vec \<Rightarrow> config \<Rightarrow> config" where
  "copy_keys to c =
     fold (\<lambda>key c'. case to key of
                       None \<Rightarrow> c'
                     | Some n \<Rightarrow> c'(axis_key key \<mapsto> Val (Number n)))
          [X, Y, Z, W] c"

definition updateConfigForVector :: "host \<Rightarrow> world \<Rightarrow> outcome" where
  "updateConfigForVector h w =
     (let d = data w;
          from = (if from' d \<noteq> [] then Inr (Vector (coordinates_parse h (from' d)))
                  else entity w (property d))
      in case from of
           Inl e \<Rightarrow> Threw e w
         | Inr f0 \<Rightarrow>
             (let to = coordinates_parse h (to' d);
                  converted = (if property d = ''rotation''
                               then (case toRadians f0 of
                                       Inl e \<Rightarrow> Inl e
                                     | Inr f \<Rightarrow> Inr (f, toRadians_vec to))
                               else Inr (f0, to))
              in case converted of
                   Inl e \<Rightarrow> Threw e w
                 | Inr (f, t) \<Rightarrow>
                     Done (w\<lparr>config :=
                       (copy_keys t ((config w)(''targets'' \<mapsto> ListTarget f)))
                         (''update'' \<mapsto> Callback
                            (if property d = ''position'' \<or> property d = ''rotation'' \<or>
                                property d = ''scale''
                             then UpdateObject3D else UpdateVector))\<rparr>)))"

text \<open>\<open>anime(this.config)\<close>: a new handle that has been fed nothing yet.\<close>

definition anime :: "config \<Rightarrow> handle" where
  "anime c = \<lparr>built_from = c, fed = []\<rparr>"

definition isVectorType :: "string option \<Rightarrow> bool" where
  "isVectorType propType =
     (propType = Some ''vec2'' \<or> propType = Some ''vec3'' \<or> propType = Some ''vec4'')"

definition createAndStartAnimation :: "host \<Rightarrow> bool \<Rightarrow> world \<Rightarrow> outcome" where
  "createAndStartAnimation h isRestarting w =
     (case getPropertyType h (property (data w)) of
        Inl e \<Rightarrow> Threw e w
      | Inr propType \<Rightarrow>
          (let built = (if isVectorType propType then updateConfigForVector h w
                        else updateConfigForDefault w)
           in case built of
                Threw e w' \<Rightarrow> Threw e w'
              | Done w1 \<Rightarrow>
                  (let w2 = w1\<lparr>animationIsPlaying := False\<rparr>;
                       w3 = w2\<lparr>animation := Some (anime (config w2))\<rparr>;
                       w4 = addEventListeners (removeEventListeners w3)
                   in if \<not> isRestarting \<and> truthy (delay (data w4))
                      then Done (setTimeout (delay (data w4)) w4)
                      else if \<not> isRestarting \<and> startEvents (data w4) \<noteq> []
                      then Done w4
                      else Done (beginAnimation w4))))"

definition restartAnimation :: "host \<Rightarrow> world \<Rightarrow> outcome" where
  "restartAnimation h w = createAndStartAnimation h (animationIsPlaying w) w"

text \<open>
  \<open>update\<close> runs after the host has stored the new parameters in \<open>this.data\<close>;
  the first argument is that new data.
\<close>

definition update :: "host \<Rightarrow> data \<Rightarrow> world \<Rightarrow> outcome" where
  "update h newData w0 =
     (let w = w0\<lparr>data := newData\<rparr>;
          d = data w;
          w1 = w\<lparr>animationIsPlaying := False\<rparr>
      in if property d = [] then Done w1
         else
           (let w2 = w1\<lparr>config := (config w1)
                      (''autoplay'' \<mapsto> Val (Bool False),
                       ''direction'' \<mapsto> Val (Str (dir d)),
                       ''duration'' \<mapsto> Val (Number (dur d)),
                       ''easing'' \<mapsto> Val (Str (easing d)),
                       ''elasticity'' \<mapsto> Val (Number (elasticity d)),
                       ''loop'' \<mapsto> Val (loop d))\<rparr>;
                w3 = pauseAnimation w2
            in createAndStartAnimation h False w3))"

text \<open>
  \<open>tick(t, dt)\<close>. \<open>this.animation\<close> is \<open>null\<close> until the first animation is
  built; \<open>this.animation.tick\<close> then throws, after \<open>this.time\<close> was advanced.
\<close>

definition tick :: "real \<Rightarrow> real \<Rightarrow> world \<Rightarrow> outcome" where
  "tick t dt w =
     (if \<not> animationIsPlaying w then Done w
      else (let w1 = w\<lparr>time := time w + dt\<rparr>
            in case animation w1 of
                 None \<Rightarrow> Threw TypeError w1
               | Some a \<Rightarrow> Done (w1\<lparr>animation := Some (a\<lparr>fed := fed a @ [time w1]\<rparr>)\<rparr>)))"

definition remove' :: "world \<Rightarrow> world" where
  "remove' w = removeEventListeners (pauseAnimation w)"

definition pause :: "world \<Rightarrow> world" where
  "pause w = removeEventListeners (pauseAnimation (w\<lparr>paused := True, pausedWasPlaying := True\<rparr>))"

definition play :: "world \<Rightarrow> world" where
  "play w =
     (if \<not> paused w then w
      else (let w1 = addEventListeners (w\<lparr>paused := False\<rparr>)
            in if pausedWasPlaying w1
               then (resumeAnimation w1)\<lparr>pausedWasPlaying := False\<rparr>
               else w1))"

text \<open>The completion callback that \<open>init\<close> stores in the configuration.\<close>

definition complete :: "world \<Rightarrow> world" where
  "complete w = emit ''animationcomplete'' (eventDetail w) w"

subsection \<open>What the host does with the component\<close>

text \<open>Calling a registered handler. An exception thrown by a listener is reported by the
  event target and does not reach the caller.\<close>

fun run_handler :: "host \<Rightarrow> handler \<Rightarrow> world \<Rightarrow> world" where
  "run_handler h BeginAnimation w = beginAnimation w"
| "run_handler h PauseAnimation w = pauseAnimation w"
| "run_handler h ResumeAnimation w = resumeAnimation w"
| "run_handler h RestartAnimation w = state_of (restartAnimation h w)"

text \<open>
  Dispatch of an event named \<open>name\<close> on \<open>el\<close>: the listeners registered for the
  name when the dispatch starts are called in the order of their registration; one that
  has been removed in the meantime is skipped.
\<close>

definition fire :: "host \<Rightarrow> string \<Rightarrow> world \<Rightarrow> world" where
  "fire h name w =
     fold (\<lambda>l w'. if l \<in> set (listeners w') then run_handler h (snd (snd l)) w' else w')
          (filter (\<lambda>l. fst (snd l) = name) (listeners w)) w"

text \<open>
  The clock moves on to \<open>t\<close>: every timer due by then fires, that is, calls
  \<open>this.beginAnimation\<close>, and leaves the queue.
\<close>

definition advance :: "real \<Rightarrow> world \<Rightarrow> world" where
  "advance t w =
     (if t < clock w then w
      else fold (\<lambda>due w'. beginAnimation w')
                (filter (\<lambda>due. due \<le> t) (timers w))
                (w\<lparr>timers := filter (\<lambda>due. \<not> due \<le> t) (timers w), clock := t\<rparr>))"

datatype event =
    Update data
  | Tick real real
  | Pause
  | Play
  | Remove
  | Fire string
  | Advance real
  | EngineComplete
  | EntityChange "string \<Rightarrow> error + val"

fun step :: "host \<Rightarrow> world \<Rightarrow> event \<Rightarrow> world" where
  "step h w (Update d) = state_of (update h d w)"
| "step h w (Tick t dt) = state_of (tick t dt w)"
| "step h w Pause = pause w"
| "step h w Play = play w"
| "step h w Remove = remove' w"
| "step h w (Fire name) = fire h name w"
| "step h w (Advance t) = advance t w"
| "step h w EngineComplete = complete w"
| "step h w (EntityChange e) = w\<lparr>entity := e\<rparr>"

definition run :: "host \<Rightarrow> world \<Rightarrow> event list \<Rightarrow> world" where
  "run h w evs = foldl (step h) w evs"

text \<open>The state of a component on an entity before \<open>init\<close>, and after it.\<close>

definition attached :: "string \<Rightarrow> (string \<Rightarrow> error + val) \<Rightarrow> data \<Rightarrow> world" where
  "attached name ent d =
     init \<lparr>attrName = name, eventDetail = [], time = 0, animation = None,
           animationIsPlaying = False, paused = False, pausedWasPlaying = False,
           config = Map.empty, data = d, listeners = [], nextId = 0, emitted = [],
           timers = [], clock = 0, entity = ent\<rparr>"

subsection \<open>Notions used to state the properties\<close>

text \<open>The (event name, handler) pairs that a configuration asks for, in the order in which
  \<open>addEventListeners\<close> and \<open>removeEventListeners\<close> go through them.\<close>

definition triggers :: "data \<Rightarrow> (string \<times> handler) list" where
  "triggers d =
     map (\<lambda>n. (n, BeginAnimation)) (startEvents d) @
     map (\<lambda>n. (n, PauseAnimation)) (pauseEvents d) @
     map (\<lambda>n. (n, ResumeAnimation)) (resumeEvents d) @
     map (\<lambda>n. (n, RestartAnimation)) (restartEvents d)"

text \<open>Adding a list of pairs to a listener list, as repeated \<open>addEventListener\<close> does.\<close>

fun register :: "(string \<times> handler) list \<Rightarrow> (nat \<times> string \<times> handler) list \<Rightarrow> nat
                 \<Rightarrow> (nat \<times> string \<times> handler) list \<times> nat" where
  "register [] ls n = (ls, n)"
| "register (p # ps) ls n =
     (if p \<in> snd ` set ls then register ps ls n
      else register ps (ls @ [(n, p)]) (Suc n))"

text \<open>
  When building the configuration throws: \<open>getPropertyType\<close> throws (the component
  name of the property is an inherited member of the registries); or no \<open>from\<close> is
  given and \<open>getComponentProperty\<close> throws (a dotted path whose component is not on
  the entity); or no \<open>from\<close> is given, the vector path is taken for
  \<open>rotation\<close>, and the value read is \<open>null\<close>, which \<open>toRadians\<close> cannot
  assign to. \<open>createAndStartAnimation\<close> throws in exactly these cases
  (\<open>createAndStartAnimation_threw\<close> below).
\<close>

definition builder_throws :: "host \<Rightarrow> world \<Rightarrow> bool" where
  "builder_throws h w =
     (case getPropertyType h (property (data w)) of
        Inl e \<Rightarrow> True
      | Inr propType \<Rightarrow>
          from' (data w) = [] \<and>
          (case entity w (property (data w)) of
             Inl e \<Rightarrow> True
           | Inr v \<Rightarrow>
               isVectorType propType \<and> property (data w) = ''rotation'' \<and> v = Undefined))"

text \<open>The notification that \<open>beginAnimation\<close> emits for a component.\<close>

definition begin_note :: "world \<Rightarrow> string \<times> string" where
  "begin_note w = (''animationbegin'', eventDetail w)"

text \<open>The frame delta that an event hands to \<open>tick\<close>; other events carry none.\<close>

fun frame_delta :: "event \<Rightarrow> real" where
  "frame_delta (Tick t dt) = dt"
| "frame_delta ev = 0"

text \<open>The sum of the frame deltas of the ticks that arrive while the component is playing.\<close>

fun played :: "host \<Rightarrow> world \<Rightarrow> event list \<Rightarrow> real" where
  "played h w [] = 0"
| "played h w (ev # evs) =
     (if animationIsPlaying w then frame_delta ev else 0) + played h (step h w ev) evs"

text \<open>A sequence of frames, each a pair of timestamp and delta, as tick events.\<close>

definition ticks :: "(real \<times> real) list \<Rightarrow> event list" where
  "ticks frames = map (\<lambda>(t, dt). Tick t dt) frames"

text \<open>The number of \<open>animationbegin\<close> notifications emitted so far.\<close>

definition begins :: "world \<Rightarrow> nat" where
  "begins w = length (filter (\<lambda>n. fst n = ''animationbegin'') (emitted w))"


text \<open>The base keys that \<open>update\<close> writes into the configuration.\<close>

definition base_config :: "data \<Rightarrow> config \<Rightarrow> config" where
  "base_config d c =
     c(''autoplay'' \<mapsto> Val (Bool False),
       ''direction'' \<mapsto> Val (Str (dir d)),
       ''duration'' \<mapsto> Val (Number (dur d)),
       ''easing'' \<mapsto> Val (Str (easing d)),
       ''elasticity'' \<mapsto> Val (Number (elasticity d)),
       ''loop'' \<mapsto> Val (loop d))"



subsection \<open>A concrete entity\<close>

text \<open>The defaults of the schema in the source.\<close>

definition schema_defaults :: data where
  "schema_defaults =
     \<lparr>delay = Num 0, dir = [], dur = Num 1000, easing = ''easeInQuad'',
      elasticity = Num 400, from' = [], loop = Number (Num 0), property = [],
      startEvents = [], pauseEvents = [], resumeEvents = [], restartEvents = [], to' = []\<rparr>"

text \<open>A coordinate parser that knows the two strings used below.\<close>

definition sample_parse :: "string \<Rightarrow> vec" where
  "sample_parse s =
     (if s = ''0 90 0'' then [X \<mapsto> Num 0, Y \<mapsto> Num 90, Z \<mapsto> Num 0]
      else if s = ''180 0 0'' then [X \<mapsto> Num 180, Y \<mapsto> Num 0, Z \<mapsto> Num 0]
      else Map.empty)"

text \<open>
  The entity carries \<open>rotation\<close> and \<open>material\<close>. \<open>light\<close> is a registered
  component that is not on the entity.
\<close>

definition sample_host :: host where
  "sample_host =
     \<lparr>coordinates_parse = sample_parse,
      elComponents = [''rotation'' \<mapsto> SingleProp ''vec3'',
                      ''material'' \<mapsto> MultiProp [''opacity'' \<mapsto> ''number'']],
      aframeComponents = [''rotation'' \<mapsto> SingleProp ''vec3'',
                          ''material'' \<mapsto> MultiProp [''opacity'' \<mapsto> ''number''],
                          ''light'' \<mapsto> MultiProp [''intensity'' \<mapsto> ''number'']]\<rparr>"

text \<open>
  What \<open>getComponentProperty\<close> does on that entity: a plain name is looked up with
  \<open>getAttribute\<close>; for a dotted path the property is read off the component's data,
  which throws when the component is not there.
\<close>

definition sample_entity :: "string \<Rightarrow> error + val" where
  "sample_entity path =
     (case split_str CHR ''.'' path of
        name # prop # _ \<Rightarrow>
          (if name = ''material''
           then Inr (if prop = ''opacity'' then Number (Num 1) else Undefined)
           else if name = ''rotation''
           then Inr (if prop = ''x'' \<or> prop = ''y'' \<or> prop = ''z'' then Number (Num 0)
                     else Undefined)
           else Inl TypeError)
      | _ \<Rightarrow>
          (if path = ''rotation''
           then Inr (Vector [X \<mapsto> Num 0, Y \<mapsto> Num 0, Z \<mapsto> Num 0])
           else Inr Undefined))"

text \<open>The same entity after the material has been taken off it.\<close>

definition bare_entity :: "string \<Rightarrow> error + val" where
  "bare_entity path =
     (case split_str CHR ''.'' path of
        name # prop # _ \<Rightarrow>
          (if name = ''rotation''
           then Inr (if prop = ''x'' \<or> prop = ''y'' \<or> prop = ''z'' then Number (Num 0)
                     else Undefined)
           else Inl TypeError)
      | _ \<Rightarrow>
          (if path = ''rotation''
           then Inr (Vector [X \<mapsto> Num 0, Y \<mapsto> Num 0, Z \<mapsto> Num 0])
           else Inr Undefined))"

text \<open>A component named \<open>animation\<close> on that entity, after \<open>init\<close>.\<close>

definition fresh :: world where
  "fresh = attached ''animation'' sample_entity schema_defaults"

text \<open>Fading the material, with no trigger and no delay.\<close>

definition fade :: data where
  "fade = schema_defaults\<lparr>property := ''material.opacity'', to' := ''0''\<rparr>"

text \<open>The same, waiting for a click.\<close>

definition on_click :: data where
  "on_click = fade\<lparr>startEvents := [''click'']\<rparr>"

definition armed :: world where
  "armed = state_of (update sample_host on_click fresh)"

definition started :: world where
  "started = fire sample_host ''click'' armed"

text \<open>A quarter turn about the y axis, from wherever the entity is.\<close>

definition spin :: data where
  "spin = schema_defaults\<lparr>property := ''rotation'', to' := ''0 90 0''\<rparr>"

text \<open>A fade that waits half a second and for a click, and can be restarted.\<close>

definition replay :: data where
  "replay = fade\<lparr>delay := Num 500, startEvents := [''click''], restartEvents := [''again'']\<rparr>"

definition waiting :: world where
  "waiting = state_of (update sample_host replay fresh)"

text \<open>The click has arrived (its handler is \<open>beginAnimation\<close>).\<close>

definition running :: world where
  "running = beginAnimation waiting"

text \<open>The configuration is changed to wait for a tap instead of a click.\<close>

definition on_tap :: data where
  "on_tap = on_click\<lparr>startEvents := [''tap'']\<rparr>"

definition rearmed :: world where
  "rearmed = state_of (update sample_host on_tap armed)"

text \<open>A fade that starts half a second after it is built.\<close>

definition delayed :: data where
  "delayed = fade\<lparr>delay := Num 500\<rparr>"


definition pending :: world where
  "pending = state_of (update sample_host delayed fresh)"

text \<open>Before the half second is over, the configuration is replaced by one that waits
  for a click.\<close>

definition superseded :: world where
  "superseded = state_of (update sample_host on_click pending)"



text \<open>Animating the intensity of the light, which is registered but not on the entity.\<close>

definition glow :: data where
  "glow = schema_defaults\<lparr>property := ''light.intensity'', to' := ''2''\<rparr>"

text \<open>A property whose name is a member that every object inherits.\<close>

definition inherited_name :: data where
  "inherited_name = schema_defaults\<lparr>property := ''constructor'', to' := ''1''\<rparr>"

text \<open>A fade with a restart event and neither a delay nor a start event, stopped by a
  pause event after it has begun.\<close>

definition again :: data where
  "again = fade\<lparr>restartEvents := [''again'']\<rparr>"

definition halted :: world where
  "halted = pauseAnimation (state_of (update sample_host again fresh))"

text \<open>The running fade after the material has been taken off the entity: the component is
  still registered with the host, but no longer among the entity's own.\<close>

definition bare_host :: host where
  "bare_host = sample_host\<lparr>elComponents := [''rotation'' \<mapsto> SingleProp ''vec3'']\<rparr>"

definition stripped :: world where
  "stripped = running\<lparr>entity := bare_entity\<rparr>"




section \<open>Properties\<close>

subsection \<open>What each operation leaves alone\<close>

lemma el_add_frame:
  "attrName (el_addEventListener n f w) = attrName w"
  "eventDetail (el_addEventListener n f w) = eventDetail w"
  "time (el_addEventListener n f w) = time w"
  "animation (el_addEventListener n f w) = animation w"
  "animationIsPlaying (el_addEventListener n f w) = animationIsPlaying w"
  "paused (el_addEventListener n f w) = paused w"
  "pausedWasPlaying (el_addEventListener n f w) = pausedWasPlaying w"
  "config (el_addEventListener n f w) = config w"
  "data (el_addEventListener n f w) = data w"
  "emitted (el_addEventListener n f w) = emitted w"
  "timers (el_addEventListener n f w) = timers w"
  "clock (el_addEventListener n f w) = clock w"
  "entity (el_addEventListener n f w) = entity w"
  by (simp_all add: el_addEventListener_def)

lemma el_remove_frame:
  "attrName (el_removeEventListener n f w) = attrName w"
  "eventDetail (el_removeEventListener n f w) = eventDetail w"
  "time (el_removeEventListener n f w) = time w"
  "animation (el_removeEventListener n f w) = animation w"
  "animationIsPlaying (el_removeEventListener n f w) = animationIsPlaying w"
  "paused (el_removeEventListener n f w) = paused w"
  "pausedWasPlaying (el_removeEventListener n f w) = pausedWasPlaying w"
  "config (el_removeEventListener n f w) = config w"
  "data (el_removeEventListener n f w) = data w"
  "emitted (el_removeEventListener n f w) = emitted w"
  "timers (el_removeEventListener n f w) = timers w"
  "clock (el_removeEventListener n f w) = clock w"
  "entity (el_removeEventListener n f w) = entity w"
  "nextId (el_removeEventListener n f w) = nextId w"
  by (simp_all add: el_removeEventListener_def)

lemma adds_frame:
  "attrName (addEventListeners' ns f w) = attrName w"
  "eventDetail (addEventListeners' ns f w) = eventDetail w"
  "time (addEventListeners' ns f w) = time w"
  "animation (addEventListeners' ns f w) = animation w"
  "animationIsPlaying (addEventListeners' ns f w) = animationIsPlaying w"
  "paused (addEventListeners' ns f w) = paused w"
  "pausedWasPlaying (addEventListeners' ns f w) = pausedWasPlaying w"
  "config (addEventListeners' ns f w) = config w"
  "data (addEventListeners' ns f w) = data w"
  "emitted (addEventListeners' ns f w) = emitted w"
  "timers (addEventListeners' ns f w) = timers w"
  "clock (addEventListeners' ns f w) = clock w"
  "entity (addEventListeners' ns f w) = entity w"
  by (induction ns arbitrary: w; simp add: el_add_frame)+

lemma removes_frame:
  "attrName (removeEventListeners' ns f w) = attrName w"
  "eventDetail (removeEventListeners' ns f w) = eventDetail w"
  "time (removeEventListeners' ns f w) = time w"
  "animation (removeEventListeners' ns f w) = animation w"
  "animationIsPlaying (removeEventListeners' ns f w) = animationIsPlaying w"
  "paused (removeEventListeners' ns f w) = paused w"
  "pausedWasPlaying (removeEventListeners' ns f w) = pausedWasPlaying w"
  "config (removeEventListeners' ns f w) = config w"
  "data (removeEventListeners' ns f w) = data w"
  "emitted (removeEventListeners' ns f w) = emitted w"
  "timers (removeEventListeners' ns f w) = timers w"
  "clock (removeEventListeners' ns f w) = clock w"
  "entity (removeEventListeners' ns f w) = entity w"
  "nextId (removeEventListeners' ns f w) = nextId w"
  by (induction ns arbitrary: w; simp add: el_remove_frame)+

lemma addEventListeners_frame:
  "attrName (addEventListeners w) = attrName w"
  "eventDetail (addEventListeners w) = eventDetail w"
  "time (addEventListeners w) = time w"
  "animation (addEventListeners w) = animation w"
  "animationIsPlaying (addEventListeners w) = animationIsPlaying w"
  "paused (addEventListeners w) = paused w"
  "pausedWasPlaying (addEventListeners w) = pausedWasPlaying w"
  "config (addEventListeners w) = config w"
  "data (addEventListeners w) = data w"
  "emitted (addEventListeners w) = emitted w"
  "timers (addEventListeners w) = timers w"
  "clock (addEventListeners w) = clock w"
  "entity (addEventListeners w) = entity w"
  by (simp_all add: addEventListeners_def Let_def adds_frame)

lemma removeEventListeners_frame:
  "attrName (removeEventListeners w) = attrName w"
  "eventDetail (removeEventListeners w) = eventDetail w"
  "time (removeEventListeners w) = time w"
  "animation (removeEventListeners w) = animation w"
  "animationIsPlaying (removeEventListeners w) = animationIsPlaying w"
  "paused (removeEventListeners w) = paused w"
  "pausedWasPlaying (removeEventListeners w) = pausedWasPlaying w"
  "config (removeEventListeners w) = config w"
  "data (removeEventListeners w) = data w"
  "emitted (removeEventListeners w) = emitted w"
  "timers (removeEventListeners w) = timers w"
  "clock (removeEventListeners w) = clock w"
  "entity (removeEventListeners w) = entity w"
  "nextId (removeEventListeners w) = nextId w"
  by (simp_all add: removeEventListeners_def Let_def removes_frame)

subsection \<open>The listener list\<close>

lemma removes_listeners:
  "listeners (removeEventListeners' ns f w) =
     filter (\<lambda>l. snd l \<notin> set (map (\<lambda>n. (n, f)) ns)) (listeners w)"
proof (induction ns arbitrary: w)
  case Nil
  show ?case by simp
next
  case (Cons n ns)
  have "listeners (el_removeEventListener n f w) = filter (\<lambda>l. snd l \<noteq> (n, f)) (listeners w)"
    by (simp add: el_removeEventListener_def)
  then show ?case using Cons.IH [of "el_removeEventListener n f w"]
    by (auto intro: filter_cong)
qed

lemma removeEventListeners_listeners:
  "listeners (removeEventListeners w) = filter (\<lambda>l. snd l \<notin> set (triggers (data w))) (listeners w)"
  by (auto simp add: removeEventListeners_def Let_def removes_listeners removes_frame triggers_def
      intro: filter_cong)

lemma register_append:
  "register (ps @ qs) ls n = register qs (fst (register ps ls n)) (snd (register ps ls n))"
  by (induction ps ls n rule: register.induct) simp_all

lemma adds_register:
  "(listeners (addEventListeners' ns f w), nextId (addEventListeners' ns f w)) =
     register (map (\<lambda>n. (n, f)) ns) (listeners w) (nextId w)"
proof (induction ns arbitrary: w)
  case Nil
  show ?case by simp
next
  case (Cons n ns)
  show ?case using Cons.IH [of "el_addEventListener n f w"]
    by (simp add: el_addEventListener_def)
qed

lemma adds_listeners:
  "listeners (addEventListeners' ns f w) = fst (register (map (\<lambda>n. (n, f)) ns) (listeners w) (nextId w))"
  "nextId (addEventListeners' ns f w) = snd (register (map (\<lambda>n. (n, f)) ns) (listeners w) (nextId w))"
  using adds_register [of ns f w] by (metis fst_conv, metis snd_conv)

lemma addEventListeners_listeners:
  "listeners (addEventListeners w) = fst (register (triggers (data w)) (listeners w) (nextId w))"
  "nextId (addEventListeners w) = snd (register (triggers (data w)) (listeners w) (nextId w))"
  by (simp_all add: addEventListeners_def Let_def adds_listeners adds_frame triggers_def register_append)

lemma register_pairs:
  "snd ` set (fst (register ps ls n)) = snd ` set ls \<union> set ps"
  by (induction ps ls n rule: register.induct) auto

lemma register_prefix:
  "\<exists>new. fst (register ps ls n) = ls @ new"
  by (induction ps ls n rule: register.induct) auto

subsection \<open>Building and starting an animation\<close>

lemma toRadians_throws: "(\<exists>e. toRadians v = Inl e) = (v = Undefined)"
  by (cases v) simp_all

lemma toRadians_Undefined: "toRadians v = Inl e \<Longrightarrow> v = Undefined \<and> e = TypeError"
  by (cases v) simp_all

lemma error_is_TypeError: "(e::error) = TypeError"
  by (cases e)

lemma toRadians_Inr: "v \<noteq> Undefined \<Longrightarrow> \<exists>f. toRadians v = Inr f"
  by (cases v) simp_all

lemma updateConfigForDefault_throws:
  "from' (data w) = [] \<Longrightarrow> entity w (property (data w)) = Inl e
   \<Longrightarrow> updateConfigForDefault w = Threw TypeError w"
  by (simp add: updateConfigForDefault_def error_is_TypeError)

lemma updateConfigForDefault_done:
  "(if from' (data w) \<noteq> [] then Inr (Str (from' (data w))) else entity w (property (data w))) = Inr f
   \<Longrightarrow> updateConfigForDefault w =
        Done (w\<lparr>config := (config w)(''targets'' \<mapsto> KeyedTarget f,
                                      ''aframeProperty'' \<mapsto> Val (Str (to' (data w))),
                                      ''update'' \<mapsto> Callback UpdateDefault)\<rparr>)"
  by (simp add: updateConfigForDefault_def Let_def)

lemma updateConfigForVector_throws:
  "from' (data w) = [] \<Longrightarrow> entity w (property (data w)) = Inl e
   \<Longrightarrow> updateConfigForVector h w = Threw TypeError w"
  "from' (data w) = [] \<Longrightarrow> entity w (property (data w)) = Inr Undefined
   \<Longrightarrow> property (data w) = ''rotation'' \<Longrightarrow> updateConfigForVector h w = Threw TypeError w"
  by (simp_all add: updateConfigForVector_def error_is_TypeError)

lemma updateConfigForVector_config:
  assumes "(if from' (data w) \<noteq> [] then Inr (Vector (coordinates_parse h (from' (data w))))
            else entity w (property (data w))) = Inr f"
    and "property (data w) = ''rotation'' \<longrightarrow> f \<noteq> Undefined"
  shows "\<exists>c. updateConfigForVector h w = Done (w\<lparr>config := c\<rparr>)"
proof (cases "property (data w) = ''rotation''")
  case True
  with assms(2) obtain g where "toRadians f = Inr g" using toRadians_Inr by blast
  then show ?thesis using assms(1) True by (auto simp add: updateConfigForVector_def Let_def)
next
  case False
  then show ?thesis using assms(1) by (auto simp add: updateConfigForVector_def Let_def)
qed

lemma createAndStartAnimation_throws:
  assumes "builder_throws h w"
  shows "createAndStartAnimation h r w = Threw TypeError w"
proof (cases "getPropertyType h (property (data w))")
  case (Inl e)
  then show ?thesis by (simp add: createAndStartAnimation_def error_is_TypeError)
next
  case (Inr t)
  with assms have f: "from' (data w) = []"
    and c: "case entity w (property (data w)) of
              Inl e \<Rightarrow> True
            | Inr v \<Rightarrow> isVectorType t \<and> property (data w) = ''rotation'' \<and> v = Undefined"
    by (simp_all add: builder_throws_def)
  show ?thesis
  proof (cases "entity w (property (data w))")
    case (Inl e)
    then show ?thesis
      using Inr f
      by (simp add: createAndStartAnimation_def updateConfigForVector_throws(1)
            updateConfigForDefault_throws)
  next
    case v: (Inr v)
    with c have "isVectorType t" "property (data w) = ''rotation''" "v = Undefined" by simp_all
    then show ?thesis
      using Inr f v
      by (simp add: createAndStartAnimation_def updateConfigForVector_throws(2))
  qed
qed

lemma createAndStartAnimation_shape:
  assumes "\<not> builder_throws h w"
  shows "\<exists>c. createAndStartAnimation h r w = Done
          (let w4 = addEventListeners (removeEventListeners
                      (w\<lparr>config := c, animationIsPlaying := False, animation := Some (anime c)\<rparr>))
           in if \<not> r \<and> truthy (delay (data w)) then setTimeout (delay (data w)) w4
              else if \<not> r \<and> startEvents (data w) \<noteq> [] then w4
              else beginAnimation w4)"
proof -
  from assms obtain t where t: "getPropertyType h (property (data w)) = Inr t"
    by (cases "getPropertyType h (property (data w))") (simp_all add: builder_throws_def)
  have "\<exists>c. (if isVectorType t then updateConfigForVector h w else updateConfigForDefault w) =
          Done (w\<lparr>config := c\<rparr>)"
  proof (cases "from' (data w) = []")
    case True
    with assms t obtain v where v: "entity w (property (data w)) = Inr v"
      and n: "\<not> (isVectorType t \<and> property (data w) = ''rotation'' \<and> v = Undefined)"
      by (cases "entity w (property (data w))") (simp_all add: builder_throws_def)
    show ?thesis
    proof (cases "isVectorType t")
      case vt: True
      have "\<exists>c. updateConfigForVector h w = Done (w\<lparr>config := c\<rparr>)"
        by (rule updateConfigForVector_config [of w h v]) (use True v n vt in simp_all)
      then show ?thesis using vt by simp
    next
      case False
      then show ?thesis using True v by (auto simp add: updateConfigForDefault_done)
    qed
  next
    case False
    show ?thesis
    proof (cases "isVectorType t")
      case vt: True
      have "\<exists>c. updateConfigForVector h w = Done (w\<lparr>config := c\<rparr>)"
        by (rule updateConfigForVector_config [of w h "Vector (coordinates_parse h (from' (data w)))"])
           (use False in simp_all)
      then show ?thesis using vt by simp
    next
      case nv: False
      then show ?thesis using False by (auto simp add: updateConfigForDefault_done)
    qed
  qed
  then obtain c where c:
    "(if isVectorType t then updateConfigForVector h w else updateConfigForDefault w) =
       Done (w\<lparr>config := c\<rparr>)" ..
  show ?thesis
    by (rule exI [of _ c])
       (simp add: createAndStartAnimation_def t c Let_def addEventListeners_frame
          removeEventListeners_frame)
qed

lemma setTimeout_fields:
  "attrName (setTimeout n w) = attrName w"
  "eventDetail (setTimeout n w) = eventDetail w"
  "time (setTimeout n w) = time w"
  "animation (setTimeout n w) = animation w"
  "animationIsPlaying (setTimeout n w) = animationIsPlaying w"
  "paused (setTimeout n w) = paused w"
  "pausedWasPlaying (setTimeout n w) = pausedWasPlaying w"
  "config (setTimeout n w) = config w"
  "data (setTimeout n w) = data w"
  "listeners (setTimeout n w) = listeners w"
  "nextId (setTimeout n w) = nextId w"
  "emitted (setTimeout n w) = emitted w"
  "clock (setTimeout n w) = clock w"
  "entity (setTimeout n w) = entity w"
  "timers (setTimeout n w) = timers w @ [clock w + (case n of Num d \<Rightarrow> d | NaN \<Rightarrow> 0)]"
  by (cases n; simp)+

lemma beginAnimation_fields:
  "attrName (beginAnimation w) = attrName w"
  "eventDetail (beginAnimation w) = eventDetail w"
  "time (beginAnimation w) = time w"
  "animation (beginAnimation w) = animation w"
  "animationIsPlaying (beginAnimation w) = True"
  "paused (beginAnimation w) = paused w"
  "pausedWasPlaying (beginAnimation w) = pausedWasPlaying w"
  "config (beginAnimation w) = config w"
  "data (beginAnimation w) = data w"
  "listeners (beginAnimation w) = listeners w"
  "nextId (beginAnimation w) = nextId w"
  "emitted (beginAnimation w) = emitted w @ [begin_note w]"
  "timers (beginAnimation w) = timers w"
  "clock (beginAnimation w) = clock w"
  "entity (beginAnimation w) = entity w"
  by (simp_all add: beginAnimation_def emit_def begin_note_def)

lemma relisten_fields:
  "listeners (addEventListeners (removeEventListeners w)) =
     fst (register (triggers (data w)) (filter (\<lambda>l. snd l \<notin> set (triggers (data w))) (listeners w)) (nextId w))"
  "nextId (addEventListeners (removeEventListeners w)) =
     snd (register (triggers (data w)) (filter (\<lambda>l. snd l \<notin> set (triggers (data w))) (listeners w)) (nextId w))"
  by (simp_all add: addEventListeners_listeners removeEventListeners_listeners removeEventListeners_frame)

lemma createAndStartAnimation_frame:
  "attrName (state_of (createAndStartAnimation h r w)) = attrName w"
  "eventDetail (state_of (createAndStartAnimation h r w)) = eventDetail w"
  "time (state_of (createAndStartAnimation h r w)) = time w"
  "paused (state_of (createAndStartAnimation h r w)) = paused w"
  "pausedWasPlaying (state_of (createAndStartAnimation h r w)) = pausedWasPlaying w"
  "data (state_of (createAndStartAnimation h r w)) = data w"
  "clock (state_of (createAndStartAnimation h r w)) = clock w"
  "entity (state_of (createAndStartAnimation h r w)) = entity w"
proof -
  have "attrName (state_of (createAndStartAnimation h r w)) = attrName w \<and>
        eventDetail (state_of (createAndStartAnimation h r w)) = eventDetail w \<and>
        time (state_of (createAndStartAnimation h r w)) = time w \<and>
        paused (state_of (createAndStartAnimation h r w)) = paused w \<and>
        pausedWasPlaying (state_of (createAndStartAnimation h r w)) = pausedWasPlaying w \<and>
        data (state_of (createAndStartAnimation h r w)) = data w \<and>
        clock (state_of (createAndStartAnimation h r w)) = clock w \<and>
        entity (state_of (createAndStartAnimation h r w)) = entity w"
  proof (cases "builder_throws h w")
    case True
    then show ?thesis by (simp add: createAndStartAnimation_throws)
  next
    case False
    from createAndStartAnimation_shape [OF False, of r] obtain c where
      "createAndStartAnimation h r w = Done
          (let w4 = addEventListeners (removeEventListeners
                      (w\<lparr>config := c, animationIsPlaying := False, animation := Some (anime c)\<rparr>))
           in if \<not> r \<and> truthy (delay (data w)) then setTimeout (delay (data w)) w4
              else if \<not> r \<and> startEvents (data w) \<noteq> [] then w4
              else beginAnimation w4)" ..
    then show ?thesis
      by (simp add: Let_def setTimeout_fields beginAnimation_fields addEventListeners_frame
            removeEventListeners_frame)
  qed
  then show
    "attrName (state_of (createAndStartAnimation h r w)) = attrName w"
    "eventDetail (state_of (createAndStartAnimation h r w)) = eventDetail w"
    "time (state_of (createAndStartAnimation h r w)) = time w"
    "paused (state_of (createAndStartAnimation h r w)) = paused w"
    "pausedWasPlaying (state_of (createAndStartAnimation h r w)) = pausedWasPlaying w"
    "data (state_of (createAndStartAnimation h r w)) = data w"
    "clock (state_of (createAndStartAnimation h r w)) = clock w"
    "entity (state_of (createAndStartAnimation h r w)) = entity w"
    by simp_all
qed

lemma createAndStartAnimation_threw:
  "threw (createAndStartAnimation h r w) = builder_throws h w"
proof (cases "builder_throws h w")
  case True
  then show ?thesis by (simp add: createAndStartAnimation_throws)
next
  case False
  from createAndStartAnimation_shape [OF False, of r] obtain c where
    "createAndStartAnimation h r w = Done
        (let w4 = addEventListeners (removeEventListeners
                    (w\<lparr>config := c, animationIsPlaying := False, animation := Some (anime c)\<rparr>))
         in if \<not> r \<and> truthy (delay (data w)) then setTimeout (delay (data w)) w4
            else if \<not> r \<and> startEvents (data w) \<noteq> [] then w4
            else beginAnimation w4)" ..
  then show ?thesis using False by simp
qed

text \<open>What \<open>createAndStartAnimation\<close> does when it does not throw.\<close>

lemma createAndStartAnimation_result:
  assumes "\<not> builder_throws h w"
  shows "threw (createAndStartAnimation h r w) = False"
    and "animationIsPlaying (state_of (createAndStartAnimation h r w)) =
           (r \<or> (\<not> truthy (delay (data w)) \<and> startEvents (data w) = []))"
    and "emitted (state_of (createAndStartAnimation h r w)) =
           emitted w @ (if r \<or> (\<not> truthy (delay (data w)) \<and> startEvents (data w) = [])
                        then [begin_note w] else [])"
    and "timers (state_of (createAndStartAnimation h r w)) =
           timers w @ (if \<not> r \<and> truthy (delay (data w))
                       then [clock w + (case delay (data w) of Num d \<Rightarrow> d | NaN \<Rightarrow> 0)] else [])"
    and "listeners (state_of (createAndStartAnimation h r w)) =
           fst (register (triggers (data w))
                  (filter (\<lambda>l. snd l \<notin> set (triggers (data w))) (listeners w)) (nextId w))"
    and "nextId (state_of (createAndStartAnimation h r w)) =
           snd (register (triggers (data w))
                  (filter (\<lambda>l. snd l \<notin> set (triggers (data w))) (listeners w)) (nextId w))"
    and "animation (state_of (createAndStartAnimation h r w)) =
           Some (anime (config (state_of (createAndStartAnimation h r w))))"
proof -
  from createAndStartAnimation_shape [OF assms, of r] obtain c where c:
      "createAndStartAnimation h r w = Done
          (let w4 = addEventListeners (removeEventListeners
                      (w\<lparr>config := c, animationIsPlaying := False, animation := Some (anime c)\<rparr>))
           in if \<not> r \<and> truthy (delay (data w)) then setTimeout (delay (data w)) w4
              else if \<not> r \<and> startEvents (data w) \<noteq> [] then w4
              else beginAnimation w4)" ..
  show "threw (createAndStartAnimation h r w) = False" by (simp add: c)
  show "animationIsPlaying (state_of (createAndStartAnimation h r w)) =
           (r \<or> (\<not> truthy (delay (data w)) \<and> startEvents (data w) = []))"
    by (auto simp add: c Let_def setTimeout_fields beginAnimation_fields addEventListeners_frame
            removeEventListeners_frame)
  show "emitted (state_of (createAndStartAnimation h r w)) =
           emitted w @ (if r \<or> (\<not> truthy (delay (data w)) \<and> startEvents (data w) = [])
                        then [begin_note w] else [])"
    by (auto simp add: c Let_def setTimeout_fields beginAnimation_fields addEventListeners_frame
            removeEventListeners_frame begin_note_def)
  show "timers (state_of (createAndStartAnimation h r w)) =
           timers w @ (if \<not> r \<and> truthy (delay (data w))
                       then [clock w + (case delay (data w) of Num d \<Rightarrow> d | NaN \<Rightarrow> 0)] else [])"
    by (auto simp add: c Let_def setTimeout_fields beginAnimation_fields addEventListeners_frame
            removeEventListeners_frame)
  show "listeners (state_of (createAndStartAnimation h r w)) =
           fst (register (triggers (data w))
                  (filter (\<lambda>l. snd l \<notin> set (triggers (data w))) (listeners w)) (nextId w))"
    by (simp add: c Let_def setTimeout_fields beginAnimation_fields relisten_fields)
  show "nextId (state_of (createAndStartAnimation h r w)) =
           snd (register (triggers (data w))
                  (filter (\<lambda>l. snd l \<notin> set (triggers (data w))) (listeners w)) (nextId w))"
    by (simp add: c Let_def setTimeout_fields beginAnimation_fields relisten_fields)
  show "animation (state_of (createAndStartAnimation h r w)) =
           Some (anime (config (state_of (createAndStartAnimation h r w))))"
    by (simp add: c Let_def setTimeout_fields beginAnimation_fields addEventListeners_frame
            removeEventListeners_frame)
qed

subsection \<open>The lifecycle calls and the elapsed time\<close>

lemma update_empty:
  "property d = [] \<Longrightarrow> update h d w = Done (w\<lparr>data := d, animationIsPlaying := False\<rparr>)"
  by (simp add: update_def)

lemma update_nonempty:
  "property d \<noteq> [] \<Longrightarrow> update h d w =
     createAndStartAnimation h False
       (w\<lparr>data := d, config := base_config d (config w), animationIsPlaying := False\<rparr>)"
  by (simp add: update_def Let_def pauseAnimation_def base_config_def)

lemma builder_throws_cong:
  "data w' = data w \<Longrightarrow> entity w' = entity w \<Longrightarrow> builder_throws h w' = builder_throws h w"
  by (auto simp add: builder_throws_def split: sum.splits)

lemma builder_throws_prepared:
  "builder_throws h (w\<lparr>data := d, config := c, animationIsPlaying := b\<rparr>) =
     builder_throws h (w\<lparr>data := d\<rparr>)"
  by (rule builder_throws_cong) simp_all

lemma update_frame:
  "attrName (state_of (update h d w)) = attrName w"
  "eventDetail (state_of (update h d w)) = eventDetail w"
  "time (state_of (update h d w)) = time w"
  "paused (state_of (update h d w)) = paused w"
  "pausedWasPlaying (state_of (update h d w)) = pausedWasPlaying w"
  "data (state_of (update h d w)) = d"
  "clock (state_of (update h d w)) = clock w"
  "entity (state_of (update h d w)) = entity w"
proof -
  have "attrName (state_of (update h d w)) = attrName w \<and>
        eventDetail (state_of (update h d w)) = eventDetail w \<and>
        time (state_of (update h d w)) = time w \<and>
        paused (state_of (update h d w)) = paused w \<and>
        pausedWasPlaying (state_of (update h d w)) = pausedWasPlaying w \<and>
        data (state_of (update h d w)) = d \<and>
        clock (state_of (update h d w)) = clock w \<and>
        entity (state_of (update h d w)) = entity w"
  proof (cases "property d = []")
    case True
    then show ?thesis by (simp add: update_empty)
  next
    case False
    from update_nonempty [OF False, of h w]
    show ?thesis by (simp add: createAndStartAnimation_frame)
  qed
  then show
    "attrName (state_of (update h d w)) = attrName w"
    "eventDetail (state_of (update h d w)) = eventDetail w"
    "time (state_of (update h d w)) = time w"
    "paused (state_of (update h d w)) = paused w"
    "pausedWasPlaying (state_of (update h d w)) = pausedWasPlaying w"
    "data (state_of (update h d w)) = d"
    "clock (state_of (update h d w)) = clock w"
    "entity (state_of (update h d w)) = entity w"
    by simp_all
qed

lemma update_result:
  assumes "property d \<noteq> []" and "\<not> builder_throws h (w\<lparr>data := d\<rparr>)"
  shows "threw (update h d w) = False"
    and "animationIsPlaying (state_of (update h d w)) = (\<not> truthy (delay d) \<and> startEvents d = [])"
    and "emitted (state_of (update h d w)) =
           emitted w @ (if \<not> truthy (delay d) \<and> startEvents d = [] then [begin_note w] else [])"
    and "timers (state_of (update h d w)) =
           timers w @ (if truthy (delay d)
                       then [clock w + (case delay d of Num ms \<Rightarrow> ms | NaN \<Rightarrow> 0)] else [])"
    and "listeners (state_of (update h d w)) =
           fst (register (triggers d) (filter (\<lambda>l. snd l \<notin> set (triggers d)) (listeners w)) (nextId w))"
    and "nextId (state_of (update h d w)) =
           snd (register (triggers d) (filter (\<lambda>l. snd l \<notin> set (triggers d)) (listeners w)) (nextId w))"
    and "animation (state_of (update h d w)) = Some (anime (config (state_of (update h d w))))"
proof -
  define c where "c = base_config d (config w)"
  from update_nonempty [OF assms(1), of h w] have c:
    "update h d w = createAndStartAnimation h False (w\<lparr>data := d, config := c, animationIsPlaying := False\<rparr>)"
    by (simp add: c_def)
  have nt: "\<not> builder_throws h (w\<lparr>data := d, config := c, animationIsPlaying := False\<rparr>)"
    using assms(2) by (simp add: builder_throws_prepared)
  note r = createAndStartAnimation_result [OF nt, of False]
  show "threw (update h d w) = False" using r(1) by (simp add: c)
  show "animationIsPlaying (state_of (update h d w)) = (\<not> truthy (delay d) \<and> startEvents d = [])"
    using r(2) by (simp add: c)
  show "emitted (state_of (update h d w)) =
           emitted w @ (if \<not> truthy (delay d) \<and> startEvents d = [] then [begin_note w] else [])"
    using r(3) by (simp add: c begin_note_def)
  show "timers (state_of (update h d w)) =
           timers w @ (if truthy (delay d)
                       then [clock w + (case delay d of Num ms \<Rightarrow> ms | NaN \<Rightarrow> 0)] else [])"
    using r(4) by (simp add: c)
  show "listeners (state_of (update h d w)) =
           fst (register (triggers d) (filter (\<lambda>l. snd l \<notin> set (triggers d)) (listeners w)) (nextId w))"
    using r(5) by (simp add: c)
  show "nextId (state_of (update h d w)) =
           snd (register (triggers d) (filter (\<lambda>l. snd l \<notin> set (triggers d)) (listeners w)) (nextId w))"
    using r(6) by (simp add: c)
  show "animation (state_of (update h d w)) = Some (anime (config (state_of (update h d w))))"
    using r(7) by (simp add: c)
qed

lemma run_handler_time: "time (run_handler h f w) = time w"
  by (cases f) (simp_all add: beginAnimation_fields pauseAnimation_def resumeAnimation_def
        restartAnimation_def createAndStartAnimation_frame)

lemma fold_keeps:
  assumes "\<And>x s. P (g x s) = P s"
  shows "P (fold g xs s) = P s"
  using assms by (induction xs arbitrary: s) simp_all

lemma fire_time: "time (fire h name w) = time w"
  unfolding fire_def
  by (rule fold_keeps) (simp add: run_handler_time)

lemma advance_time: "time (advance t w) = time w"
proof -
  have *: "time (fold (\<lambda>due w'. beginAnimation w') ds s) = time s" for ds s
    by (rule fold_keeps) (simp add: beginAnimation_fields)
  show ?thesis by (simp add: advance_def *)
qed

lemma tick_time:
  "time (state_of (tick t dt w)) = (if animationIsPlaying w then time w + dt else time w)"
  by (simp add: tick_def Let_def split: option.splits)

lemma tick_idle: "\<not> animationIsPlaying w \<Longrightarrow> tick t dt w = Done w"
  by (simp add: tick_def)

lemma lifecycle_time:
  "time (pause w) = time w" "time (play w) = time w" "time (remove' w) = time w"
  "time (complete w) = time w"
  by (simp_all add: pause_def play_def remove'_def complete_def emit_def Let_def
        removeEventListeners_frame addEventListeners_frame pauseAnimation_def resumeAnimation_def)

lemma step_time:
  "time (step h w ev) = time w + (if animationIsPlaying w then frame_delta ev else 0)"
  by (cases ev) (simp_all add: update_frame tick_time fire_time advance_time lifecycle_time)

lemma run_Cons: "run h w (ev # evs) = run h (step h w ev) evs"
  by (simp add: run_def)

lemma run_Nil: "run h w [] = w"
  by (simp add: run_def)

lemma run_snoc: "run h w (evs @ [ev]) = step h (run h w evs) ev"
  by (simp add: run_def)

lemma run_append: "run h w (xs @ ys) = run h (run h w xs) ys"
  by (simp add: run_def)

lemma run_time: "time (run h w evs) = time w + played h w evs"
  by (induction evs arbitrary: w) (simp_all add: run_Cons run_Nil step_time)

lemma played_nonneg:
  "\<forall>ev\<in>set evs. 0 \<le> frame_delta ev \<Longrightarrow> 0 \<le> played h w evs"
  by (induction evs arbitrary: w) (simp_all add: add_nonneg_nonneg)

lemma run_ticks_idle:
  "\<not> animationIsPlaying w \<Longrightarrow> run h w (ticks frames) = w"
  by (induction frames) (auto simp add: ticks_def run_Nil run_Cons tick_idle)

subsection \<open>The concrete entity\<close>

lemma fresh_fields:
  "attrName fresh = ''animation''" "eventDetail fresh = ''animation''" "time fresh = 0"
  "animation fresh = None" "animationIsPlaying fresh = False" "paused fresh = False"
  "pausedWasPlaying fresh = False" "data fresh = schema_defaults" "listeners fresh = []"
  "nextId fresh = 0" "emitted fresh = []" "timers fresh = []" "clock fresh = 0"
  "entity fresh = sample_entity"
  by (simp_all add: fresh_def attached_def init_def)

lemma fade_fields:
  "property fade = ''material.opacity''" "delay fade = Num 0" "startEvents fade = []"
  "pauseEvents fade = []" "resumeEvents fade = []" "restartEvents fade = []" "from' fade = []"
  "to' fade = ''0''"
  by (simp_all add: fade_def schema_defaults_def)

lemma sample_types:
  "getPropertyType sample_host ''material.opacity'' = Inr (Some ''number'')"
  "getPropertyType sample_host ''rotation'' = Inr (Some ''vec3'')"
  "getPropertyType sample_host ''light.intensity'' = Inr (Some ''number'')"
  "getPropertyType sample_host ''constructor'' = Inl TypeError"
  by (simp_all add: getPropertyType_def sample_host_def lookup_member_def object_prototype_def)

lemma sample_reads:
  "sample_entity ''material.opacity'' = Inr (Number (Num 1))"
  "sample_entity ''rotation'' = Inr (Vector [X \<mapsto> Num 0, Y \<mapsto> Num 0, Z \<mapsto> Num 0])"
  "sample_entity ''light.intensity'' = Inl TypeError"
  "bare_entity ''material.opacity'' = Inl TypeError"
  by (simp_all add: sample_entity_def bare_entity_def)

lemma opacity_no_throw:
  "property d = ''material.opacity'' \<Longrightarrow> entity w = sample_entity
   \<Longrightarrow> \<not> builder_throws sample_host (w\<lparr>data := d\<rparr>)"
  by (simp add: builder_throws_def sample_types sample_reads isVectorType_def)

lemma opacity_no_throw_here:
  "property (data w) = ''material.opacity'' \<Longrightarrow> entity w = sample_entity
   \<Longrightarrow> \<not> builder_throws sample_host w"
  by (simp add: builder_throws_def sample_types sample_reads isVectorType_def)

lemma fire_single:
  assumes "filter (\<lambda>l. fst (snd l) = name) (listeners w) = [(i, name, f)]"
  shows "fire h name w = run_handler h f w"
proof -
  have "(i, name, f) \<in> set (filter (\<lambda>l. fst (snd l) = name) (listeners w))"
    using assms by simp
  then have "(i, name, f) \<in> set (listeners w)" by simp
  then show ?thesis by (simp add: fire_def assms)
qed

lemma begins_beginAnimation: "begins (beginAnimation w) = Suc (begins w)"
  by (simp add: begins_def beginAnimation_fields begin_note_def)

lemma on_click_fields:
  "property on_click = ''material.opacity''" "delay on_click = Num 0"
  "startEvents on_click = [''click'']" "pauseEvents on_click = []" "resumeEvents on_click = []"
  "restartEvents on_click = []" "from' on_click = []"
  by (simp_all add: on_click_def fade_def schema_defaults_def)

lemma on_click_triggers: "triggers on_click = [(''click'', BeginAnimation)]"
  by (simp add: triggers_def on_click_fields)

lemma armed_fields:
  "eventDetail armed = ''animation''" "animationIsPlaying armed = False" "emitted armed = []"
  "timers armed = []" "listeners armed = [(0, ''click'', BeginAnimation)]" "data armed = on_click"
  "entity armed = sample_entity" "paused armed = False" "pausedWasPlaying armed = False"
proof -
  have p: "property on_click \<noteq> []" by (simp add: on_click_fields)
  have nt: "\<not> builder_throws sample_host (fresh\<lparr>data := on_click\<rparr>)"
    by (rule opacity_no_throw) (simp_all add: on_click_fields fresh_fields)
  note r = update_result [OF p nt]
  show "eventDetail armed = ''animation''" by (simp add: armed_def update_frame fresh_fields)
  show "animationIsPlaying armed = False" by (simp add: armed_def r(2) on_click_fields)
  show "emitted armed = []" by (simp add: armed_def r(3) on_click_fields fresh_fields)
  show "timers armed = []" by (simp add: armed_def r(4) on_click_fields fresh_fields)
  show "listeners armed = [(0, ''click'', BeginAnimation)]"
    by (simp add: armed_def r(5) on_click_triggers fresh_fields)
  show "data armed = on_click" by (simp add: armed_def update_frame)
  show "entity armed = sample_entity" by (simp add: armed_def update_frame fresh_fields)
  show "paused armed = False" by (simp add: armed_def update_frame fresh_fields)
  show "pausedWasPlaying armed = False" by (simp add: armed_def update_frame fresh_fields)
qed

lemma started_eq: "started = beginAnimation armed"
  using fire_single [of "''click''" armed 0 BeginAnimation sample_host]
  by (simp add: started_def armed_fields)

lemma started_fields:
  "eventDetail started = ''animation''" "animationIsPlaying started = True"
  "emitted started = [(''animationbegin'', ''animation'')]"
  "listeners started = [(0, ''click'', BeginAnimation)]" "data started = on_click"
  "entity started = sample_entity"
  by (simp_all add: started_eq beginAnimation_fields armed_fields begin_note_def)

subsection \<open>The configuration that is built\<close>

lemma toRadians_vec_key:
  "key \<in> {X, Y, Z} \<Longrightarrow> toRadians_vec obj key = Some (degToRad (obj key))"
  by (auto simp add: toRadians_vec_def Let_def)

lemma copy_keys_other:
  "k \<notin> {''x'', ''y'', ''z'', ''w''} \<Longrightarrow> copy_keys to c k = c k"
  by (simp add: copy_keys_def split: option.splits)

lemma copy_keys_axis:
  "to a = Some n \<Longrightarrow> copy_keys to c (axis_key a) = Some (Val (Number n))"
  by (cases a) (simp_all add: copy_keys_def split: option.splits)

lemma updateConfigForVector_plain:
  assumes "property (data w) \<noteq> ''rotation''"
    and "(if from' (data w) \<noteq> [] then Inr (Vector (coordinates_parse h (from' (data w))))
          else entity w (property (data w))) = Inr f"
  shows "updateConfigForVector h w = Done (w\<lparr>config :=
          (copy_keys (coordinates_parse h (to' (data w)))
             ((config w)(''targets'' \<mapsto> ListTarget f)))
           (''update'' \<mapsto> Callback
              (if property (data w) = ''position'' \<or> property (data w) = ''scale''
               then UpdateObject3D else UpdateVector))\<rparr>)"
  using assms by (simp add: updateConfigForVector_def Let_def)

lemma updateConfigForVector_rotation:
  assumes "property (data w) = ''rotation''"
    and "(if from' (data w) \<noteq> [] then Inr (Vector (coordinates_parse h (from' (data w))))
          else entity w ''rotation'') = Inr (Vector fv)"
  shows "updateConfigForVector h w = Done (w\<lparr>config :=
          (copy_keys (toRadians_vec (coordinates_parse h (to' (data w))))
             ((config w)(''targets'' \<mapsto> ListTarget (Vector (toRadians_vec fv)))))
           (''update'' \<mapsto> Callback UpdateObject3D)\<rparr>)"
proof (cases "from' (data w) = []")
  case True
  with assms(2) have "entity w ''rotation'' = Inr (Vector fv)" by simp
  then show ?thesis using assms(1) True by (simp add: updateConfigForVector_def Let_def)
next
  case False
  with assms(2) have "coordinates_parse h (from' (data w)) = fv" by simp
  then show ?thesis using assms(1) False by (simp add: updateConfigForVector_def Let_def)
qed

lemma createAndStartAnimation_config:
  "getPropertyType h (property (data w)) = Inr t \<Longrightarrow> isVectorType t
     \<Longrightarrow> updateConfigForVector h w = Done w1
     \<Longrightarrow> config (state_of (createAndStartAnimation h r w)) = config w1"
  "getPropertyType h (property (data w)) = Inr t \<Longrightarrow> \<not> isVectorType t
     \<Longrightarrow> updateConfigForDefault w = Done w1
     \<Longrightarrow> config (state_of (createAndStartAnimation h r w)) = config w1"
  by (simp_all add: createAndStartAnimation_def Let_def setTimeout_fields beginAnimation_fields
        addEventListeners_frame removeEventListeners_frame)

lemma spin_fields:
  "property spin = ''rotation''" "delay spin = Num 0" "startEvents spin = []"
  "from' spin = []" "to' spin = ''0 90 0''"
  by (simp_all add: spin_def schema_defaults_def)

lemma sample_host_parse: "coordinates_parse sample_host = sample_parse"
  by (simp add: sample_host_def)

lemma replay_fields:
  "property replay = ''material.opacity''" "delay replay = Num 500"
  "startEvents replay = [''click'']" "restartEvents replay = [''again'']" "from' replay = []"
  "to' replay = ''0''"
  by (simp_all add: replay_def fade_def schema_defaults_def)

lemma waiting_fields:
  "eventDetail waiting = ''animation''" "animationIsPlaying waiting = False" "emitted waiting = []"
  "timers waiting = [500]" "data waiting = replay" "clock waiting = 0"
  "entity waiting = sample_entity"
proof -
  have p: "property replay \<noteq> []" by (simp add: replay_fields)
  have nt: "\<not> builder_throws sample_host (fresh\<lparr>data := replay\<rparr>)"
    by (rule opacity_no_throw) (simp_all add: replay_fields fresh_fields)
  note r = update_result [OF p nt]
  show "eventDetail waiting = ''animation''" by (simp add: waiting_def update_frame fresh_fields)
  show "animationIsPlaying waiting = False" by (simp add: waiting_def r(2) replay_fields)
  show "emitted waiting = []" by (simp add: waiting_def r(3) replay_fields fresh_fields)
  show "timers waiting = [500]" by (simp add: waiting_def r(4) replay_fields fresh_fields)
  show "data waiting = replay" by (simp add: waiting_def update_frame)
  show "clock waiting = 0" by (simp add: waiting_def update_frame fresh_fields)
  show "entity waiting = sample_entity" by (simp add: waiting_def update_frame fresh_fields)
qed

lemma running_fields:
  "eventDetail running = ''animation''" "animationIsPlaying running = True"
  "emitted running = [(''animationbegin'', ''animation'')]"
  "timers running = [500]" "data running = replay" "clock running = 0"
  "entity running = sample_entity"
  by (simp_all add: running_def beginAnimation_fields waiting_fields begin_note_def)

subsection \<open>Host pause and resume, and changed trigger names\<close>

lemma pause_fields:
  "animationIsPlaying (pause w) = False" "paused (pause w) = True"
  "pausedWasPlaying (pause w) = True" "emitted (pause w) = emitted w"
  "timers (pause w) = timers w" "data (pause w) = data w" "eventDetail (pause w) = eventDetail w"
  by (simp_all add: pause_def removeEventListeners_frame pauseAnimation_def)

lemma play_fields:
  "emitted (play w) = emitted w" "timers (play w) = timers w" "data (play w) = data w"
  "animationIsPlaying (play w) = (animationIsPlaying w \<or> (paused w \<and> pausedWasPlaying w))"
  by (auto simp add: play_def Let_def addEventListeners_frame resumeAnimation_def)

lemma on_tap_fields:
  "property on_tap = ''material.opacity''" "delay on_tap = Num 0"
  "startEvents on_tap = [''tap'']" "from' on_tap = []"
  by (simp_all add: on_tap_def on_click_fields)

lemma on_tap_triggers: "triggers on_tap = [(''tap'', BeginAnimation)]"
  by (simp add: triggers_def on_tap_def on_click_fields)

lemma armed_nextId: "nextId armed = 1"
proof -
  have p: "property on_click \<noteq> []" by (simp add: on_click_fields)
  have nt: "\<not> builder_throws sample_host (fresh\<lparr>data := on_click\<rparr>)"
    by (rule opacity_no_throw) (simp_all add: on_click_fields fresh_fields)
  show ?thesis
    by (simp add: armed_def update_result(6) [OF p nt] on_click_triggers fresh_fields)
qed

lemma rearmed_fields:
  "data rearmed = on_tap" "animationIsPlaying rearmed = False" "emitted rearmed = []"
  "listeners rearmed = [(0, ''click'', BeginAnimation), (1, ''tap'', BeginAnimation)]"
  "eventDetail rearmed = ''animation''"
proof -
  have p: "property on_tap \<noteq> []" by (simp add: on_tap_fields)
  have nt: "\<not> builder_throws sample_host (armed\<lparr>data := on_tap\<rparr>)"
    by (rule opacity_no_throw) (simp_all add: on_tap_fields armed_fields)
  note r = update_result [OF p nt]
  show "data rearmed = on_tap" by (simp add: rearmed_def update_frame)
  show "animationIsPlaying rearmed = False" by (simp add: rearmed_def r(2) on_tap_fields)
  show "emitted rearmed = []" by (simp add: rearmed_def r(3) on_tap_fields armed_fields)
  show "listeners rearmed = [(0, ''click'', BeginAnimation), (1, ''tap'', BeginAnimation)]"
    by (simp add: rearmed_def r(5) on_tap_triggers armed_fields armed_nextId)
  show "eventDetail rearmed = ''animation''" by (simp add: rearmed_def update_frame armed_fields)
qed

subsection \<open>Timers\<close>

lemma fold_begin_fields:
  "animationIsPlaying (fold (\<lambda>due w'. beginAnimation w') ds s) = (ds \<noteq> [] \<or> animationIsPlaying s)"
  "begins (fold (\<lambda>due w'. beginAnimation w') ds s) = begins s + length ds"
  "timers (fold (\<lambda>due w'. beginAnimation w') ds s) = timers s"
  "clock (fold (\<lambda>due w'. beginAnimation w') ds s) = clock s"
  "data (fold (\<lambda>due w'. beginAnimation w') ds s) = data s"
  "eventDetail (fold (\<lambda>due w'. beginAnimation w') ds s) = eventDetail s"
  "emitted (fold (\<lambda>due w'. beginAnimation w') ds s) = emitted s @ replicate (length ds) (begin_note s)"
proof -
  show "animationIsPlaying (fold (\<lambda>due w'. beginAnimation w') ds s) = (ds \<noteq> [] \<or> animationIsPlaying s)"
    by (induction ds arbitrary: s) (simp_all add: beginAnimation_fields)
  show "begins (fold (\<lambda>due w'. beginAnimation w') ds s) = begins s + length ds"
    by (induction ds arbitrary: s) (simp_all add: begins_beginAnimation)
  show "timers (fold (\<lambda>due w'. beginAnimation w') ds s) = timers s"
    by (induction ds arbitrary: s) (simp_all add: beginAnimation_fields)
  show "clock (fold (\<lambda>due w'. beginAnimation w') ds s) = clock s"
    by (induction ds arbitrary: s) (simp_all add: beginAnimation_fields)
  show "data (fold (\<lambda>due w'. beginAnimation w') ds s) = data s"
    by (induction ds arbitrary: s) (simp_all add: beginAnimation_fields)
  show e: "eventDetail (fold (\<lambda>due w'. beginAnimation w') ds s) = eventDetail s"
    by (induction ds arbitrary: s) (simp_all add: beginAnimation_fields)
  show "emitted (fold (\<lambda>due w'. beginAnimation w') ds s) = emitted s @ replicate (length ds) (begin_note s)"
    by (induction ds arbitrary: s)
       (simp_all add: beginAnimation_fields begin_note_def replicate_app_Cons_same)
qed

lemma advance_fields:
  assumes "clock w \<le> t"
  shows "animationIsPlaying (advance t w) =
           (filter (\<lambda>due. due \<le> t) (timers w) \<noteq> [] \<or> animationIsPlaying w)"
    and "begins (advance t w) = begins w + length (filter (\<lambda>due. due \<le> t) (timers w))"
    and "timers (advance t w) = filter (\<lambda>due. \<not> due \<le> t) (timers w)"
    and "clock (advance t w) = t"
    and "data (advance t w) = data w"
    and "emitted (advance t w) =
           emitted w @ replicate (length (filter (\<lambda>due. due \<le> t) (timers w))) (begin_note w)"
  using assms by (simp_all add: advance_def fold_begin_fields begins_def begin_note_def)



lemma update_keeps_timers: "set (timers w) \<subseteq> set (timers (state_of (update h d w)))"
proof (cases "property d = []")
  case True
  then show ?thesis by (simp add: update_empty)
next
  case False
  show ?thesis
  proof (cases "builder_throws h (w\<lparr>data := d\<rparr>)")
    case True
    then have "builder_throws h (w\<lparr>data := d, config := base_config d (config w), animationIsPlaying := False\<rparr>)"
      by (simp add: builder_throws_prepared)
    then show ?thesis
      by (simp add: update_nonempty [OF False] createAndStartAnimation_throws)
  next
    case nt: False
    show ?thesis by (simp add: update_result(4) [OF False nt])
  qed
qed

lemma delayed_fields:
  "property delayed = ''material.opacity''" "delay delayed = Num 500" "startEvents delayed = []"
  "pauseEvents delayed = []" "resumeEvents delayed = []" "restartEvents delayed = []"
  "from' delayed = []"
  by (simp_all add: delayed_def fade_fields)


lemma pending_fields:
  "eventDetail pending = ''animation''" "animationIsPlaying pending = False"
  "emitted pending = []" "timers pending = [500]" "data pending = delayed" "clock pending = 0"
  "listeners pending = []" "nextId pending = 0" "entity pending = sample_entity"
proof -
  have p: "property delayed \<noteq> []" by (simp add: delayed_fields)
  have nt: "\<not> builder_throws sample_host (fresh\<lparr>data := delayed\<rparr>)"
    by (rule opacity_no_throw) (simp_all add: delayed_fields fresh_fields)
  have t: "triggers delayed = []" by (simp add: triggers_def delayed_fields)
  note r = update_result [OF p nt]
  show "eventDetail pending = ''animation''" by (simp add: pending_def update_frame fresh_fields)
  show "animationIsPlaying pending = False" by (simp add: pending_def r(2) delayed_fields)
  show "emitted pending = []" by (simp add: pending_def r(3) delayed_fields fresh_fields)
  show "timers pending = [500]" by (simp add: pending_def r(4) delayed_fields fresh_fields)
  show "data pending = delayed" by (simp add: pending_def update_frame)
  show "clock pending = 0" by (simp add: pending_def update_frame fresh_fields)
  show "listeners pending = []" by (simp add: pending_def r(5) t fresh_fields)
  show "nextId pending = 0" by (simp add: pending_def r(6) t fresh_fields)
  show "entity pending = sample_entity" by (simp add: pending_def update_frame fresh_fields)
qed

lemma superseded_fields:
  "animationIsPlaying superseded = False" "emitted superseded = []" "timers superseded = [500]"
  "data superseded = on_click" "clock superseded = 0" "eventDetail superseded = ''animation''"
proof -
  have p: "property on_click \<noteq> []" by (simp add: on_click_fields)
  have nt: "\<not> builder_throws sample_host (pending\<lparr>data := on_click\<rparr>)"
    by (rule opacity_no_throw) (simp_all add: on_click_fields pending_fields)
  note r = update_result [OF p nt]
  show "animationIsPlaying superseded = False" by (simp add: superseded_def r(2) on_click_fields)
  show "emitted superseded = []" by (simp add: superseded_def r(3) on_click_fields pending_fields)
  show "timers superseded = [500]" by (simp add: superseded_def r(4) on_click_fields pending_fields)
  show "data superseded = on_click" by (simp add: superseded_def update_frame)
  show "clock superseded = 0" by (simp add: superseded_def update_frame pending_fields)
  show "eventDetail superseded = ''animation''"
    by (simp add: superseded_def update_frame pending_fields)
qed

lemma tick_fields:
  "animationIsPlaying (state_of (tick t dt w)) = animationIsPlaying w"
  "emitted (state_of (tick t dt w)) = emitted w"
  "timers (state_of (tick t dt w)) = timers w"
  "clock (state_of (tick t dt w)) = clock w"
  by (simp_all add: tick_def Let_def split: option.splits)







lemma tick_flags:
  "paused (state_of (tick t dt w)) = paused w"
  "pausedWasPlaying (state_of (tick t dt w)) = pausedWasPlaying w"
  by (simp_all add: tick_def Let_def split: option.splits)

lemma fade_no_throw: "entity w = sample_entity \<Longrightarrow> \<not> builder_throws sample_host (w\<lparr>data := fade\<rparr>)"
  by (rule opacity_no_throw) (simp_all add: fade_fields)

subsection \<open>Builds that throw\<close>

lemma update_throws:
  assumes "property d \<noteq> []" and "builder_throws h (w\<lparr>data := d\<rparr>)"
  shows "update h d w =
           Threw TypeError (w\<lparr>data := d, config := base_config d (config w),
                              animationIsPlaying := False\<rparr>)"
proof -
  have "builder_throws h (w\<lparr>data := d, config := base_config d (config w), animationIsPlaying := False\<rparr>)"
    using assms(2) by (simp add: builder_throws_prepared)
  then show ?thesis
    by (simp add: update_nonempty [OF assms(1)] createAndStartAnimation_throws)
qed

lemma glow_fields:
  "property glow = ''light.intensity''" "delay glow = Num 0" "startEvents glow = []"
  "from' glow = []"
  by (simp_all add: glow_def schema_defaults_def)

lemma inherited_name_fields:
  "property inherited_name = ''constructor''" "delay inherited_name = Num 0"
  "startEvents inherited_name = []" "from' inherited_name = []"
  by (simp_all add: inherited_name_def schema_defaults_def)

lemma glow_throws:
  "property d = ''light.intensity'' \<Longrightarrow> from' d = [] \<Longrightarrow> entity w = sample_entity
   \<Longrightarrow> builder_throws sample_host (w\<lparr>data := d\<rparr>)"
  by (simp add: builder_throws_def sample_types sample_reads)

lemma inherited_name_throws:
  "property d = ''constructor'' \<Longrightarrow> builder_throws sample_host (w\<lparr>data := d\<rparr>)"
  by (simp add: builder_throws_def sample_types)

lemma update_threw:
  "threw (update h d w) = (property d \<noteq> [] \<and> builder_throws h (w\<lparr>data := d\<rparr>))"
proof (cases "property d = []")
  case True
  then show ?thesis by (simp add: update_empty)
next
  case False
  show ?thesis
  proof (cases "builder_throws h (w\<lparr>data := d\<rparr>)")
    case True
    then show ?thesis using False by (simp add: update_throws)
  next
    case nt: False
    then show ?thesis using False update_result(1) [OF False nt] by simp
  qed
qed

lemma again_fields:
  "property again = ''material.opacity''" "delay again = Num 0" "startEvents again = []"
  "pauseEvents again = []" "resumeEvents again = []" "restartEvents again = [''again'']"
  "from' again = []"
  by (simp_all add: again_def fade_fields)

lemma halted_fields:
  "animationIsPlaying halted = False" "data halted = again" "entity halted = sample_entity"
  "listeners halted = [(0, ''again'', RestartAnimation)]"
proof -
  have p: "property again \<noteq> []" by (simp add: again_fields)
  have nt: "\<not> builder_throws sample_host (fresh\<lparr>data := again\<rparr>)"
    by (rule opacity_no_throw) (simp_all add: again_fields fresh_fields)
  have t: "triggers again = [(''again'', RestartAnimation)]"
    by (simp add: triggers_def again_fields)
  note r = update_result [OF p nt]
  show "animationIsPlaying halted = False" by (simp add: halted_def pauseAnimation_def)
  show "data halted = again" by (simp add: halted_def pauseAnimation_def update_frame)
  show "entity halted = sample_entity"
    by (simp add: halted_def pauseAnimation_def update_frame fresh_fields)
  show "listeners halted = [(0, ''again'', RestartAnimation)]"
    by (simp add: halted_def pauseAnimation_def r(5) t fresh_fields)
qed

lemma bare_types: "getPropertyType bare_host ''material.opacity'' = Inr (Some ''number'')"
  by (simp add: getPropertyType_def bare_host_def sample_host_def lookup_member_def
        object_prototype_def)

lemma stripped_fields:
  "animationIsPlaying stripped = True" "data stripped = replay" "entity stripped = bare_entity"
  by (simp_all add: stripped_def running_fields)

lemma stripped_throws: "builder_throws bare_host stripped"
  by (simp add: builder_throws_def stripped_fields replay_fields bare_types sample_reads)

subsection \<open>Runs in which only a timer can start the animation\<close>
















section \<open>The claims\<close>

text \<open>
  C1: the elapsed-time counter \<open>this.time\<close> grows by exactly the frame deltas of the
  ticks that arrive while \<open>animationIsPlaying\<close> is true and by nothing else, so it
  never decreases when the deltas are not negative; a tick while not playing leaves it
  alone; and a pause followed by a resume, by trigger handlers or by the host, with any
  frames in between, leaves it as it was at the pause.
\<close>

theorem elapsed_time_accounting:
  "time (run h w evs) = time w + played h w evs \<and>
   ((\<forall>ev\<in>set evs. 0 \<le> frame_delta ev) \<longrightarrow> time w \<le> time (run h w evs)) \<and>
   time (state_of (tick t dt w)) = (if animationIsPlaying w then time w + dt else time w) \<and>
   time (resumeAnimation (run h (pauseAnimation w) (ticks frames))) = time w \<and>
   time (play (run h (pause w) (ticks frames))) = time w"
proof (intro conjI impI)
  show acc: "time (run h w evs) = time w + played h w evs" by (rule run_time)
  show "time w \<le> time (run h w evs)" if "\<forall>ev\<in>set evs. 0 \<le> frame_delta ev"
    using played_nonneg [OF that, of h w] acc by simp
  show "time (state_of (tick t dt w)) = (if animationIsPlaying w then time w + dt else time w)"
    by (rule tick_time)
  have "\<not> animationIsPlaying (pauseAnimation w)" by (simp add: pauseAnimation_def)
  then have "run h (pauseAnimation w) (ticks frames) = pauseAnimation w" by (rule run_ticks_idle)
  then show "time (resumeAnimation (run h (pauseAnimation w) (ticks frames))) = time w"
    by (simp add: resumeAnimation_def pauseAnimation_def)
  have "\<not> animationIsPlaying (pause w)"
    by (simp add: pause_def removeEventListeners_frame pauseAnimation_def)
  then have "run h (pause w) (ticks frames) = pause w" by (rule run_ticks_idle)
  then show "time (play (run h (pause w) (ticks frames))) = time w"
    by (simp add: lifecycle_time)
qed

theorem elapsed_time_accounting_witness:
  "list_all (\<lambda>ev. 0 \<le> frame_delta ev) [Update fade, Tick 0 16, Pause, Tick 16 16, Play, Tick 32 16] \<and>
   time fresh \<le> time (run sample_host fresh [Update fade, Tick 0 16, Pause, Tick 16 16, Play, Tick 32 16]) \<and>
   time (run sample_host fresh [Update fade, Tick 0 16, Pause, Tick 16 16, Play, Tick 32 16]) = 32"
  using elapsed_time_accounting [of sample_host fresh
      "[Update fade, Tick 0 16, Pause, Tick 16 16, Play, Tick 32 16]" 0 0 "[]"]
  by (simp add: fresh_fields fade_fields update_result(2) fade_no_throw tick_fields tick_flags
        pause_fields play_fields)

text \<open>
  C2, at the input where the code departs from it: the start event of the configuration
  is changed from \<open>click\<close> to \<open>tap\<close>. \<open>createAndStartAnimation\<close>
  removes the listeners named by \<open>this.data\<close>, which already holds the new
  configuration, so the listener for \<open>click\<close> stays registered, and a click
  still starts the animation.
\<close>

theorem listener_of_earlier_config_survives:
  "startEvents (data armed) = [''click''] \<and> startEvents (data rearmed) = [''tap''] \<and>
   listeners rearmed = [(0, ''click'', BeginAnimation), (1, ''tap'', BeginAnimation)] \<and>
   \<not> animationIsPlaying rearmed \<and>
   animationIsPlaying (fire sample_host ''click'' rearmed) \<and>
   emitted (fire sample_host ''click'' rearmed) = [(''animationbegin'', ''animation'')]"
proof -
  have "fire sample_host ''click'' rearmed = beginAnimation rearmed"
    using fire_single [of "''click''" rearmed 0 BeginAnimation sample_host]
    by (simp add: rearmed_fields)
  then show ?thesis
    by (simp add: rearmed_fields armed_fields on_tap_fields on_click_fields beginAnimation_fields
          begin_note_def)
qed

text \<open>
  C3, as the code has it: a start-delay timer is never cancelled and its callback is
  \<open>beginAnimation\<close> itself, which checks nothing. When the parameters are rebuilt
  before the timer fires, the timer is still pending after the rebuild (whatever the new
  configuration is), and when it fires the component is playing and one more
  \<open>animationbegin\<close> has been emitted, under the new configuration.
\<close>

theorem stale_timer_still_begins:
  "property d1 \<noteq> [] \<and> delay d1 = Num ms \<and> ms \<noteq> 0 \<and> \<not> builder_throws h (w\<lparr>data := d1\<rparr>) \<and>
   clock w \<le> t \<and> clock w + ms \<le> t
   \<longrightarrow>
   (let w2 = state_of (update h d2 (state_of (update h d1 w))); w3 = advance t w2 in
      clock w + ms \<in> set (timers w2) \<and> data w3 = d2 \<and> animationIsPlaying w3 \<and>
      begins w2 < begins w3 \<and> last (emitted w3) = (''animationbegin'', eventDetail w))"
proof (intro impI)
  assume a: "property d1 \<noteq> [] \<and> delay d1 = Num ms \<and> ms \<noteq> 0 \<and> \<not> builder_throws h (w\<lparr>data := d1\<rparr>) \<and>
   clock w \<le> t \<and> clock w + ms \<le> t"
  then have p: "property d1 \<noteq> []" and nt: "\<not> builder_throws h (w\<lparr>data := d1\<rparr>)"
    and d: "delay d1 = Num ms" and z: "ms \<noteq> 0" and t0: "clock w \<le> t" and t1: "clock w + ms \<le> t"
    by simp_all
  let ?w1 = "state_of (update h d1 w)"
  let ?w2 = "state_of (update h d2 ?w1)"
  have "timers ?w1 = timers w @ [clock w + ms]"
    using update_result(4) [OF p nt] d z by simp
  then have "clock w + ms \<in> set (timers ?w1)" by simp
  then have m: "clock w + ms \<in> set (timers ?w2)"
    using update_keeps_timers [of ?w1 h d2] by blast
  have c: "clock ?w2 \<le> t" using t0 by (simp add: update_frame)
  have ne: "filter (\<lambda>due. due \<le> t) (timers ?w2) \<noteq> []"
    using m t1 by (auto simp add: filter_empty_conv)
  then have len: "0 < length (filter (\<lambda>due. due \<le> t) (timers ?w2))" by simp
  note f = advance_fields [OF c]
  have "last (emitted (advance t ?w2)) = begin_note ?w2"
    using len by (simp add: f(6))
  then have l: "last (emitted (advance t ?w2)) = (''animationbegin'', eventDetail w)"
    by (simp add: begin_note_def update_frame)
  show "let w2 = state_of (update h d2 (state_of (update h d1 w))); w3 = advance t w2 in
      clock w + ms \<in> set (timers w2) \<and> data w3 = d2 \<and> animationIsPlaying w3 \<and>
      begins w2 < begins w3 \<and> last (emitted w3) = (''animationbegin'', eventDetail w)"
    unfolding Let_def using m ne len l by (simp add: f update_frame)
qed

theorem stale_timer_still_begins_witness:
  "property delayed \<noteq> [] \<and> delay delayed = Num 500 \<and>
   \<not> builder_throws sample_host (fresh\<lparr>data := delayed\<rparr>) \<and> clock fresh + 500 \<le> 500 \<and>
   data (advance 500 superseded) = on_click \<and> animationIsPlaying (advance 500 superseded) \<and>
   begins superseded < begins (advance 500 superseded)"
  using stale_timer_still_begins [of delayed 500 sample_host fresh 500 on_click]
  by (simp add: Let_def delayed_fields fresh_fields opacity_no_throw superseded_def pending_def)

text \<open>
  The claim as it was stated, that the stale callback does not start the animation, fails
  here: a configuration with a delay of 500 is replaced at once by one that waits for a
  click; at 500 the old timer fires, and the component plays and emits
  \<open>animationbegin\<close> although no click has arrived.
\<close>

theorem stale_timer_starts_superseded_config_counterexample:
  "startEvents (data superseded) = [''click''] \<and> \<not> animationIsPlaying superseded \<and>
   emitted superseded = [] \<and> timers superseded = [500] \<and>
   animationIsPlaying (advance 500 superseded) \<and>
   emitted (advance 500 superseded) = [(''animationbegin'', ''animation'')]"
  by (simp add: superseded_fields on_click_fields advance_fields begin_note_def)

text \<open>
  C4, at the input where the code departs from it: a component that is waiting for its
  start event and is not playing is paused by the host and resumed. \<open>pause\<close> sets
  \<open>pausedWasPlaying\<close> to true without looking at \<open>animationIsPlaying\<close>, so
  \<open>play\<close> resumes the animation although it was not playing at the pause. No
  \<open>animationbegin\<close> is emitted.
\<close>

theorem host_resume_starts_waiting_animation:
  "startEvents (data armed) = [''click''] \<and> \<not> animationIsPlaying armed \<and> emitted armed = [] \<and>
   pausedWasPlaying (pause armed) \<and>
   animationIsPlaying (play (pause armed)) \<and> emitted (play (pause armed)) = []"
  by (simp add: play_fields pause_fields armed_fields on_click_fields)

text \<open>
  C5, as the code has it: with a non-empty target property, no start events and a delay
  of 0, \<open>update\<close> (and \<open>createAndStartAnimation\<close>, whatever its argument) leaves
  the component playing and has emitted one \<open>animationbegin\<close>, without scheduling a
  timer, with no tick and no event involved, provided that building the configuration
  does not throw. It throws when the component name of the property is an inherited
  member of the registries, and, when no \<open>from\<close> is given, when the property cannot
  be read from the entity or a vector rotation is read as \<open>null\<close>.
\<close>

theorem immediate_start:
  "(property d \<noteq> [] \<and> startEvents d = [] \<and> delay d = Num 0 \<and> \<not> builder_throws h (w\<lparr>data := d\<rparr>)
      \<longrightarrow> \<not> threw (update h d w) \<and>
          animationIsPlaying (state_of (update h d w)) \<and>
          emitted (state_of (update h d w)) = emitted w @ [(''animationbegin'', eventDetail w)] \<and>
          timers (state_of (update h d w)) = timers w) \<and>
   (startEvents (data w) = [] \<and> delay (data w) = Num 0 \<and> \<not> builder_throws h w
      \<longrightarrow> \<not> threw (createAndStartAnimation h r w) \<and>
          animationIsPlaying (state_of (createAndStartAnimation h r w)) \<and>
          emitted (state_of (createAndStartAnimation h r w)) =
            emitted w @ [(''animationbegin'', eventDetail w)] \<and>
          timers (state_of (createAndStartAnimation h r w)) = timers w) \<and>
   threw (update h d w) = (property d \<noteq> [] \<and> builder_throws h (w\<lparr>data := d\<rparr>)) \<and>
   threw (createAndStartAnimation h r w) = builder_throws h w"
proof (intro conjI impI)
  show "threw (update h d w) = (property d \<noteq> [] \<and> builder_throws h (w\<lparr>data := d\<rparr>))"
    by (rule update_threw)
  show "threw (createAndStartAnimation h r w) = builder_throws h w"
    by (rule createAndStartAnimation_threw)
next
  assume a: "property d \<noteq> [] \<and> startEvents d = [] \<and> delay d = Num 0 \<and> \<not> builder_throws h (w\<lparr>data := d\<rparr>)"
  then have p: "property d \<noteq> []" and nt: "\<not> builder_throws h (w\<lparr>data := d\<rparr>)"
    and s: "startEvents d = []" and z: "delay d = Num 0" by simp_all
  note r = update_result [OF p nt]
  show "\<not> threw (update h d w)" using r(1) by simp
  show "animationIsPlaying (state_of (update h d w))" using r(2) s z by simp
  show "emitted (state_of (update h d w)) = emitted w @ [(''animationbegin'', eventDetail w)]"
    using r(3) s z by (simp add: begin_note_def)
  show "timers (state_of (update h d w)) = timers w" using r(4) z by simp
next
  assume a: "startEvents (data w) = [] \<and> delay (data w) = Num 0 \<and> \<not> builder_throws h w"
  then have nt: "\<not> builder_throws h w"
    and s: "startEvents (data w) = []" and z: "delay (data w) = Num 0" by simp_all
  note r = createAndStartAnimation_result [OF nt, of r]
  show "\<not> threw (createAndStartAnimation h r w)" using r(1) by simp
  show "animationIsPlaying (state_of (createAndStartAnimation h r w))" using r(2) s z by simp
  show "emitted (state_of (createAndStartAnimation h r w)) =
            emitted w @ [(''animationbegin'', eventDetail w)]"
    using r(3) s z by (simp add: begin_note_def)
  show "timers (state_of (createAndStartAnimation h r w)) = timers w" using r(4) z by simp
qed

theorem immediate_start_witness:
  "property fade \<noteq> [] \<and> startEvents fade = [] \<and> delay fade = Num 0 \<and>
   \<not> builder_throws sample_host (fresh\<lparr>data := fade\<rparr>) \<and>
   \<not> threw (update sample_host fade fresh) \<and>
   animationIsPlaying (state_of (update sample_host fade fresh)) \<and>
   emitted (state_of (update sample_host fade fresh)) = [(''animationbegin'', ''animation'')] \<and>
   timers (state_of (update sample_host fade fresh)) = []"
  using immediate_start [of fade sample_host fresh False]
  by (simp add: fade_fields fresh_fields opacity_no_throw)

text \<open>
  The claim as it was stated, for every configuration with a non-empty target property,
  fails where the build throws. With the property \<open>light.intensity\<close>, the light not
  being on the entity, \<open>getComponentProperty\<close> throws; with the property
  \<open>constructor\<close>, \<open>getPropertyType\<close> throws. In both cases \<open>update\<close>
  ends there: the component is not playing and nothing has been emitted.
\<close>

theorem immediate_start_counterexample:
  "property glow \<noteq> [] \<and> startEvents glow = [] \<and> delay glow = Num 0 \<and>
   threw (update sample_host glow fresh) \<and>
   \<not> animationIsPlaying (state_of (update sample_host glow fresh)) \<and>
   emitted (state_of (update sample_host glow fresh)) = [] \<and>
   property inherited_name \<noteq> [] \<and> startEvents inherited_name = [] \<and>
   delay inherited_name = Num 0 \<and>
   threw (update sample_host inherited_name fresh) \<and>
   \<not> animationIsPlaying (state_of (update sample_host inherited_name fresh)) \<and>
   emitted (state_of (update sample_host inherited_name fresh)) = []"
proof -
  have g: "builder_throws sample_host (fresh\<lparr>data := glow\<rparr>)"
    by (rule glow_throws) (simp_all add: glow_fields fresh_fields)
  have i: "builder_throws sample_host (fresh\<lparr>data := inherited_name\<rparr>)"
    by (rule inherited_name_throws) (simp add: inherited_name_fields)
  have pg: "property glow \<noteq> []" by (simp add: glow_fields)
  have pn: "property inherited_name \<noteq> []" by (simp add: inherited_name_fields)
  show ?thesis
    by (simp add: update_throws [OF pg g] update_throws [OF pn i] glow_fields
          inherited_name_fields fresh_fields)
qed




text \<open>
  C7, as the code has it: the handler of a restart event is
  \<open>createAndStartAnimation\<close> called with the current value of
  \<open>animationIsPlaying\<close>. Unless building the configuration throws, it builds the
  configuration again from the entity as it is at that moment (\<open>from\<close> is read from
  the entity when the data gives none) and makes a new handle from it. When the animation
  was playing, the delay and the start events are not looked at: the component is playing
  at once and has emitted \<open>animationbegin\<close>. When it was not playing they apply as in
  any other build: a delay schedules a timer, start events leave the component waiting,
  and with neither of them the component plays. So the component is playing after the
  restart exactly when it was playing before or the configuration has neither a delay
  nor start events. When building throws, which happens when \<open>from\<close> has to be read
  from an entity that no longer carries the component, the handler throws and leaves the
  component as it was. (The rotation case of the vector path is the subject of C8.)
\<close>

theorem restart_rebuilds:
  "(let w' = run_handler h RestartAnimation w; d = data w in
      w' = state_of (createAndStartAnimation h (animationIsPlaying w) w) \<and>
      threw (restartAnimation h w) = builder_throws h w \<and>
      (builder_throws h w \<longrightarrow> w' = w) \<and>
      (\<not> builder_throws h w \<longrightarrow>
         animation w' = Some \<lparr>built_from = config w', fed = []\<rparr> \<and>
         (\<forall>t v. getPropertyType h (property d) = Inr t \<and> \<not> isVectorType t \<and>
                (if from' d \<noteq> [] then Inr (Str (from' d)) else entity w (property d)) = Inr v
            \<longrightarrow> config w' ''targets'' = Some (KeyedTarget v) \<and>
                config w' ''aframeProperty'' = Some (Val (Str (to' d)))) \<and>
         (\<forall>t v. getPropertyType h (property d) = Inr t \<and> isVectorType t \<and>
                property d \<noteq> ''rotation'' \<and>
                (if from' d \<noteq> [] then Inr (Vector (coordinates_parse h (from' d)))
                 else entity w (property d)) = Inr v
            \<longrightarrow> config w' ''targets'' = Some (ListTarget v) \<and>
                (\<forall>key n. coordinates_parse h (to' d) key = Some n \<longrightarrow>
                   config w' (axis_key key) = Some (Val (Number n)))) \<and>
         animationIsPlaying w' =
           (animationIsPlaying w \<or> (\<not> truthy (delay d) \<and> startEvents d = [])) \<and>
         (animationIsPlaying w \<longrightarrow>
            animationIsPlaying w' \<and>
            emitted w' = emitted w @ [(''animationbegin'', eventDetail w)] \<and>
            timers w' = timers w) \<and>
         (\<not> animationIsPlaying w \<and> truthy (delay d) \<longrightarrow>
            \<not> animationIsPlaying w' \<and> emitted w' = emitted w \<and>
            timers w' = timers w @ [clock w + (case delay d of Num ms \<Rightarrow> ms | NaN \<Rightarrow> 0)]) \<and>
         (\<not> animationIsPlaying w \<and> \<not> truthy (delay d) \<and> startEvents d \<noteq> [] \<longrightarrow>
            \<not> animationIsPlaying w' \<and> emitted w' = emitted w \<and> timers w' = timers w) \<and>
         (\<not> animationIsPlaying w \<and> \<not> truthy (delay d) \<and> startEvents d = [] \<longrightarrow>
            animationIsPlaying w' \<and>
            emitted w' = emitted w @ [(''animationbegin'', eventDetail w)] \<and>
            timers w' = timers w)))"
proof -
  let ?w' = "state_of (createAndStartAnimation h (animationIsPlaying w) w)"
  let ?d = "data w"
  have e: "run_handler h RestartAnimation w = ?w'" by (simp add: restartAnimation_def)
  have h0: "threw (restartAnimation h w) = builder_throws h w"
    by (simp add: restartAnimation_def createAndStartAnimation_threw)
  have h1: "?w' = w" if "builder_throws h w"
    by (simp add: createAndStartAnimation_throws [OF that])
  have rest: "animation ?w' = Some \<lparr>built_from = config ?w', fed = []\<rparr> \<and>
         (\<forall>t v. getPropertyType h (property ?d) = Inr t \<and> \<not> isVectorType t \<and>
                (if from' ?d \<noteq> [] then Inr (Str (from' ?d)) else entity w (property ?d)) = Inr v
            \<longrightarrow> config ?w' ''targets'' = Some (KeyedTarget v) \<and>
                config ?w' ''aframeProperty'' = Some (Val (Str (to' ?d)))) \<and>
         (\<forall>t v. getPropertyType h (property ?d) = Inr t \<and> isVectorType t \<and>
                property ?d \<noteq> ''rotation'' \<and>
                (if from' ?d \<noteq> [] then Inr (Vector (coordinates_parse h (from' ?d)))
                 else entity w (property ?d)) = Inr v
            \<longrightarrow> config ?w' ''targets'' = Some (ListTarget v) \<and>
                (\<forall>key n. coordinates_parse h (to' ?d) key = Some n \<longrightarrow>
                   config ?w' (axis_key key) = Some (Val (Number n)))) \<and>
         animationIsPlaying ?w' =
           (animationIsPlaying w \<or> (\<not> truthy (delay ?d) \<and> startEvents ?d = [])) \<and>
         (animationIsPlaying w \<longrightarrow>
            animationIsPlaying ?w' \<and>
            emitted ?w' = emitted w @ [(''animationbegin'', eventDetail w)] \<and>
            timers ?w' = timers w) \<and>
         (\<not> animationIsPlaying w \<and> truthy (delay ?d) \<longrightarrow>
            \<not> animationIsPlaying ?w' \<and> emitted ?w' = emitted w \<and>
            timers ?w' = timers w @ [clock w + (case delay ?d of Num ms \<Rightarrow> ms | NaN \<Rightarrow> 0)]) \<and>
         (\<not> animationIsPlaying w \<and> \<not> truthy (delay ?d) \<and> startEvents ?d \<noteq> [] \<longrightarrow>
            \<not> animationIsPlaying ?w' \<and> emitted ?w' = emitted w \<and> timers ?w' = timers w) \<and>
         (\<not> animationIsPlaying w \<and> \<not> truthy (delay ?d) \<and> startEvents ?d = [] \<longrightarrow>
            animationIsPlaying ?w' \<and>
            emitted ?w' = emitted w @ [(''animationbegin'', eventDetail w)] \<and>
            timers ?w' = timers w)"
    if nt: "\<not> builder_throws h w"
  proof -
    note r = createAndStartAnimation_result [OF nt, of "animationIsPlaying w"]
    have h2: "animation ?w' = Some \<lparr>built_from = config ?w', fed = []\<rparr>"
      using r(7) by (simp add: anime_def)
    have h3: "config ?w' ''targets'' = Some (KeyedTarget v) \<and>
              config ?w' ''aframeProperty'' = Some (Val (Str (to' ?d)))"
      if "getPropertyType h (property ?d) = Inr t" "\<not> isVectorType t"
        "(if from' ?d \<noteq> [] then Inr (Str (from' ?d)) else entity w (property ?d)) = Inr v"
      for t v
      by (simp add: createAndStartAnimation_config(2)
            [OF that(1) that(2) updateConfigForDefault_done [OF that(3)]])
    have h4: "config ?w' ''targets'' = Some (ListTarget v) \<and>
              (\<forall>key n. coordinates_parse h (to' ?d) key = Some n \<longrightarrow>
                 config ?w' (axis_key key) = Some (Val (Number n)))"
      if "getPropertyType h (property ?d) = Inr t" "isVectorType t" "property ?d \<noteq> ''rotation''"
        "(if from' ?d \<noteq> [] then Inr (Vector (coordinates_parse h (from' ?d)))
          else entity w (property ?d)) = Inr v"
      for t v
    proof -
      note c = createAndStartAnimation_config(1)
        [OF that(1) that(2) updateConfigForVector_plain [OF that(3) that(4)], of "animationIsPlaying w"]
      have "axis_key key \<noteq> ''update''" for key by (cases key) simp_all
      then show ?thesis by (simp add: c copy_keys_other copy_keys_axis)
    qed
    have h5: "animationIsPlaying ?w' =
           (animationIsPlaying w \<or> (\<not> truthy (delay ?d) \<and> startEvents ?d = []))"
      using r(2) by simp
    have h6: "emitted ?w' = emitted w @ [(''animationbegin'', eventDetail w)] \<and>
              timers ?w' = timers w"
      if "animationIsPlaying w \<or> (\<not> truthy (delay ?d) \<and> startEvents ?d = [])"
      using r(3) r(4) that by (auto simp add: begin_note_def)
    have h7: "emitted ?w' = emitted w \<and>
           timers ?w' = timers w @ [clock w + (case delay ?d of Num ms \<Rightarrow> ms | NaN \<Rightarrow> 0)]"
      if "\<not> animationIsPlaying w" "truthy (delay ?d)"
      using r(3) r(4) that by simp
    have h8: "emitted ?w' = emitted w \<and> timers ?w' = timers w"
      if "\<not> animationIsPlaying w" "\<not> truthy (delay ?d)" "startEvents ?d \<noteq> []"
      using r(3) r(4) that by simp
    show ?thesis using h2 h3 h4 h5 h6 h7 h8 by blast
  qed
  show ?thesis unfolding Let_def e using h0 h1 rest by blast
qed

theorem restart_rebuilds_witness:
  "\<not> builder_throws sample_host running \<and> animationIsPlaying running \<and>
   truthy (delay (data running)) \<and> startEvents (data running) \<noteq> [] \<and>
   animationIsPlaying (run_handler sample_host RestartAnimation running) \<and>
   emitted (run_handler sample_host RestartAnimation running) =
     [(''animationbegin'', ''animation''), (''animationbegin'', ''animation'')] \<and>
   timers (run_handler sample_host RestartAnimation running) = [500] \<and>
   config (run_handler sample_host RestartAnimation running) ''targets'' =
     Some (KeyedTarget (Number (Num 1))) \<and>
   \<not> builder_throws sample_host waiting \<and> \<not> animationIsPlaying waiting \<and>
   \<not> animationIsPlaying (run_handler sample_host RestartAnimation waiting) \<and>
   emitted (run_handler sample_host RestartAnimation waiting) = [] \<and>
   timers (run_handler sample_host RestartAnimation waiting) = [500, 500] \<and>
   builder_throws bare_host stripped \<and>
   run_handler bare_host RestartAnimation stripped = stripped"
proof -
  have n1: "\<not> builder_throws sample_host running"
    by (rule opacity_no_throw_here) (simp_all add: running_fields replay_fields)
  have n2: "\<not> builder_throws sample_host waiting"
    by (rule opacity_no_throw_here) (simp_all add: waiting_fields replay_fields)
  show ?thesis
    using restart_rebuilds [of sample_host running] restart_rebuilds [of sample_host waiting]
      restart_rebuilds [of bare_host stripped]
    by (simp add: Let_def n1 n2 stripped_throws running_fields waiting_fields replay_fields
          sample_types sample_reads isVectorType_def restartAnimation_def)
qed

text \<open>
  The claim as it was stated fails in two ways. A fade with neither a delay nor start
  events, stopped by a pause event, plays at once after the restart event although it was
  not playing when the event fired. And when the material has been taken off the entity,
  re-reading \<open>from\<close> throws: the restart handler leaves the component as it was and
  rebuilds nothing.
\<close>

theorem restart_rebuilds_counterexample:
  "\<not> animationIsPlaying halted \<and> delay (data halted) = Num 0 \<and>
   startEvents (data halted) = [] \<and> restartEvents (data halted) = [''again''] \<and>
   animationIsPlaying (fire sample_host ''again'' halted) \<and>
   animationIsPlaying stripped \<and> restartEvents (data stripped) = [''again''] \<and>
   from' (data stripped) = [] \<and>
   threw (restartAnimation bare_host stripped) \<and>
   run_handler bare_host RestartAnimation stripped = stripped"
proof -
  have nt: "\<not> builder_throws sample_host halted"
    by (rule opacity_no_throw_here) (simp_all add: halted_fields again_fields)
  have f: "fire sample_host ''again'' halted = state_of (restartAnimation sample_host halted)"
    using fire_single [of "''again''" halted 0 RestartAnimation sample_host]
    by (simp add: halted_fields)
  have p: "animationIsPlaying (fire sample_host ''again'' halted)"
    by (simp add: f restartAnimation_def createAndStartAnimation_result(2) [OF nt]
          halted_fields again_fields)
  have s: "restartAnimation bare_host stripped = Threw TypeError stripped"
    by (simp add: restartAnimation_def createAndStartAnimation_throws [OF stripped_throws])
  show ?thesis
    by (simp add: p s halted_fields again_fields stripped_fields replay_fields)
qed

text \<open>
  C8: when the target property is \<open>rotation\<close> and its type is a vector type, the
  configuration handed to \<open>anime\<close> has, for each of the keys x, y and z, the
  component of the resolved \<open>from\<close> vector (in \<open>targets\<close>) and of the
  parsed \<open>to\<close> vector (as the key's end value) multiplied by \<open>\<pi> / 180\<close>;
  a \<open>to\<close> whose y is 90 gives the end value \<open>\<pi> / 2\<close>.
\<close>

theorem rotation_in_radians:
  "getPropertyType h ''rotation'' = Inr propType \<and> isVectorType propType \<and>
   property (data w) = ''rotation'' \<and>
   (if from' (data w) \<noteq> [] then Inr (Vector (coordinates_parse h (from' (data w))))
    else entity w ''rotation'') = Inr (Vector fv) \<and>
   key \<in> {X, Y, Z}
   \<longrightarrow>
   animation (state_of (createAndStartAnimation h r w)) =
     Some \<lparr>built_from = config (state_of (createAndStartAnimation h r w)), fed = []\<rparr> \<and>
   config (state_of (createAndStartAnimation h r w)) ''targets'' =
     Some (ListTarget (Vector (toRadians_vec fv))) \<and>
   toRadians_vec fv key = Some (degToRad (fv key)) \<and>
   config (state_of (createAndStartAnimation h r w)) (axis_key key) =
     Some (Val (Number (degToRad (coordinates_parse h (to' (data w)) key)))) \<and>
   (\<forall>a. fv key = Some (Num a) \<longrightarrow> toRadians_vec fv key = Some (Num (a * pi / 180))) \<and>
   (\<forall>b. coordinates_parse h (to' (data w)) key = Some (Num b) \<longrightarrow>
        config (state_of (createAndStartAnimation h r w)) (axis_key key) =
          Some (Val (Number (Num (b * pi / 180))))) \<and>
   (coordinates_parse h (to' (data w)) Y = Some (Num 90) \<longrightarrow>
        config (state_of (createAndStartAnimation h r w)) ''y'' =
          Some (Val (Number (Num (pi / 2)))))"
proof (intro impI)
  assume a: "getPropertyType h ''rotation'' = Inr propType \<and> isVectorType propType \<and>
   property (data w) = ''rotation'' \<and>
   (if from' (data w) \<noteq> [] then Inr (Vector (coordinates_parse h (from' (data w))))
    else entity w ''rotation'') = Inr (Vector fv) \<and>
   key \<in> {X, Y, Z}"
  then have p: "property (data w) = ''rotation''"
    and f: "(if from' (data w) \<noteq> [] then Inr (Vector (coordinates_parse h (from' (data w))))
             else entity w ''rotation'') = Inr (Vector fv)"
    and k: "key \<in> {X, Y, Z}" by simp_all
  from a p have g: "getPropertyType h (property (data w)) = Inr propType"
    and v: "isVectorType propType" by simp_all
  have nt: "\<not> builder_throws h w"
  proof
    assume b: "builder_throws h w"
    then have e: "from' (data w) = []" using g by (simp add: builder_throws_def)
    with f have "entity w (property (data w)) = Inr (Vector fv)" using p by simp
    with b g show False by (simp add: builder_throws_def)
  qed
  let ?w' = "state_of (createAndStartAnimation h r w)"
  let ?to = "coordinates_parse h (to' (data w))"
  have c: "config ?w' =
          (copy_keys (toRadians_vec ?to)
             ((config w)(''targets'' \<mapsto> ListTarget (Vector (toRadians_vec fv)))))
           (''update'' \<mapsto> Callback UpdateObject3D)"
    using createAndStartAnimation_config(1) [OF g v updateConfigForVector_rotation [OF p f], of r]
    by simp
  have ck: "config ?w' (axis_key kk) = Some (Val (Number (degToRad (?to kk))))"
    if "kk \<in> {X, Y, Z}" for kk
  proof -
    have "axis_key kk \<noteq> ''update''" by (cases kk) simp_all
    then show ?thesis
      using toRadians_vec_key [OF that, of ?to] by (simp add: c copy_keys_axis)
  qed
  have h1: "animation ?w' = Some \<lparr>built_from = config ?w', fed = []\<rparr>"
    using createAndStartAnimation_result(7) [OF nt, of r] by (simp add: anime_def)
  have h2: "config ?w' ''targets'' = Some (ListTarget (Vector (toRadians_vec fv)))"
    by (simp add: c copy_keys_other)
  show "animation ?w' = Some \<lparr>built_from = config ?w', fed = []\<rparr> \<and>
   config ?w' ''targets'' = Some (ListTarget (Vector (toRadians_vec fv))) \<and>
   toRadians_vec fv key = Some (degToRad (fv key)) \<and>
   config ?w' (axis_key key) = Some (Val (Number (degToRad (?to key)))) \<and>
   (\<forall>a. fv key = Some (Num a) \<longrightarrow> toRadians_vec fv key = Some (Num (a * pi / 180))) \<and>
   (\<forall>b. ?to key = Some (Num b) \<longrightarrow>
        config ?w' (axis_key key) = Some (Val (Number (Num (b * pi / 180))))) \<and>
   (?to Y = Some (Num 90) \<longrightarrow> config ?w' ''y'' = Some (Val (Number (Num (pi / 2)))))"
    using h1 h2 toRadians_vec_key [OF k, of fv] ck [OF k] ck [of Y] by simp
qed

theorem rotation_in_radians_witness:
  "getPropertyType sample_host ''rotation'' = Inr (Some ''vec3'') \<and> isVectorType (Some ''vec3'') \<and>
   property (data (fresh\<lparr>data := spin\<rparr>)) = ''rotation'' \<and>
   entity (fresh\<lparr>data := spin\<rparr>) ''rotation'' =
     Inr (Vector [X \<mapsto> Num 0, Y \<mapsto> Num 0, Z \<mapsto> Num 0]) \<and>
   coordinates_parse sample_host (to' spin) Y = Some (Num 90) \<and>
   config (state_of (createAndStartAnimation sample_host False (fresh\<lparr>data := spin\<rparr>))) ''y'' =
     Some (Val (Number (Num (pi / 2)))) \<and>
   config (state_of (createAndStartAnimation sample_host False (fresh\<lparr>data := spin\<rparr>))) ''targets'' =
     Some (ListTarget (Vector (toRadians_vec [X \<mapsto> Num 0, Y \<mapsto> Num 0, Z \<mapsto> Num 0])))"
  using rotation_in_radians [of sample_host "Some ''vec3''" "fresh\<lparr>data := spin\<rparr>"
      "[X \<mapsto> Num 0, Y \<mapsto> Num 0, Z \<mapsto> Num 0]" Y False]
  by (simp add: sample_types isVectorType_def spin_fields fresh_fields sample_reads
        sample_host_parse sample_parse_def)

text \<open>
  C9: when the target property is empty, \<open>update\<close> only clears
  \<open>animationIsPlaying\<close> and returns: the configuration, the animation handle, the
  emitted notifications, the timers and the listeners stay as they were, and nothing is
  thrown.
\<close>

theorem update_without_property:
  "property d = [] \<Longrightarrow>
     update h d w = Done (w\<lparr>data := d, animationIsPlaying := False\<rparr>) \<and>
     \<not> threw (update h d w) \<and>
     config (state_of (update h d w)) = config w \<and>
     animation (state_of (update h d w)) = animation w \<and>
     emitted (state_of (update h d w)) = emitted w \<and>
     timers (state_of (update h d w)) = timers w \<and>
     listeners (state_of (update h d w)) = listeners w"
  by (simp add: update_empty)

theorem update_without_property_witness:
  "property schema_defaults = [] \<and>
   \<not> threw (update sample_host schema_defaults fresh) \<and>
   animation (state_of (update sample_host schema_defaults fresh)) = None \<and>
   emitted (state_of (update sample_host schema_defaults fresh)) = []"
  using update_without_property [of schema_defaults sample_host fresh]
  by (simp add: schema_defaults_def fresh_fields)

text \<open>
  C10: the handler of a start event sets \<open>animationIsPlaying\<close> and emits
  \<open>animationbegin\<close> whatever the state is; it never looks at
  \<open>animationIsPlaying\<close>. Every start event of the configuration has this handler
  registered after \<open>update\<close>, and when such an event is delivered while the
  component is already playing, one more \<open>animationbegin\<close> is emitted.
\<close>

theorem start_event_always_begins:
  "run_handler h BeginAnimation w =
     w\<lparr>animationIsPlaying := True, emitted := emitted w @ [(''animationbegin'', eventDetail w)]\<rparr> \<and>
   begins (run_handler h BeginAnimation w) = Suc (begins w) \<and>
   (property d \<noteq> [] \<and> \<not> builder_throws h (w\<lparr>data := d\<rparr>) \<and> name \<in> set (startEvents d)
      \<longrightarrow> (name, BeginAnimation) \<in> snd ` set (listeners (state_of (update h d w)))) \<and>
   (filter (\<lambda>l. fst (snd l) = name) (listeners w) = [(i, name, BeginAnimation)] \<and> animationIsPlaying w
      \<longrightarrow> animationIsPlaying (fire h name w) \<and>
          emitted (fire h name w) = emitted w @ [(''animationbegin'', eventDetail w)])"
proof (intro conjI impI)
  show "run_handler h BeginAnimation w =
     w\<lparr>animationIsPlaying := True, emitted := emitted w @ [(''animationbegin'', eventDetail w)]\<rparr>"
    by (simp add: beginAnimation_def emit_def)
  show "begins (run_handler h BeginAnimation w) = Suc (begins w)"
    by (simp add: begins_beginAnimation)
next
  assume a: "property d \<noteq> [] \<and> \<not> builder_throws h (w\<lparr>data := d\<rparr>) \<and> name \<in> set (startEvents d)"
  then have p: "property d \<noteq> []" and nt: "\<not> builder_throws h (w\<lparr>data := d\<rparr>)"
    and n: "name \<in> set (startEvents d)" by simp_all
  have "(name, BeginAnimation) \<in> set (triggers d)" using n by (simp add: triggers_def)
  then show "(name, BeginAnimation) \<in> snd ` set (listeners (state_of (update h d w)))"
    by (simp add: update_result(5) [OF p nt] register_pairs)
next
  assume a: "filter (\<lambda>l. fst (snd l) = name) (listeners w) = [(i, name, BeginAnimation)] \<and> animationIsPlaying w"
  then have f: "fire h name w = beginAnimation w" using fire_single [of name w i BeginAnimation h] by simp
  show "animationIsPlaying (fire h name w)" by (simp add: f beginAnimation_fields)
  show "emitted (fire h name w) = emitted w @ [(''animationbegin'', eventDetail w)]"
    by (simp add: f beginAnimation_fields begin_note_def)
qed

theorem start_event_always_begins_witness:
  "property on_click \<noteq> [] \<and> \<not> builder_throws sample_host (started\<lparr>data := on_click\<rparr>) \<and>
   ''click'' \<in> set (startEvents on_click) \<and>
   filter (\<lambda>l. fst (snd l) = ''click'') (listeners started) = [(0, ''click'', BeginAnimation)] \<and>
   animationIsPlaying started \<and>
   animationIsPlaying (fire sample_host ''click'' started) \<and>
   emitted (fire sample_host ''click'' started) =
     [(''animationbegin'', ''animation''), (''animationbegin'', ''animation'')]"
  using start_event_always_begins [of sample_host started on_click "''click''" 0]
  by (simp add: on_click_fields started_fields opacity_no_throw)

end
